theory Spec2Isabelle
  imports Main "HOL-Library.AList"
begin

section \<open>Values, errors and collaborators\<close>

text \<open>
  The views module works on Python values: JSON data decoded from the request
  (\<open>None\<close>, booleans, integers, strings, lists, dictionaries with string keys) and the
  objects of the component graph (the component, its \<open>UnicornField\<close>s and models).
  An object is given by the class family \<open>isinstance\<close> asks about and by the names
  \<open>hasattr\<close> answers for, each with its value. \<open>POpaque\<close> stands for any other
  object the code only passes around (a bound method, a class).
  The graph is a tree: no object is reachable along two different paths. The sharing the
  module itself sets up is kept track of where it is set up: the defaults of a
  \<open>db_models\<close> entry, the default \<open>data\<close> dictionary of \<open>_set_property_value\<close>,
  and the values the data of a request has in common with its shallow copy.
\<close>

datatype kind = UnicornFieldK | ModelK | OtherK

datatype pyval =
    PNone
  | PBool bool
  | PInt int
  | PStr string
  | PList "pyval list"
  | PDict "(string \<times> pyval) list"
  | PObj kind "(string \<times> pyval) list"
  | POpaque string

type_synonym dict = "(string \<times> pyval) list"

datatype error =
    AssertionError string
  | UnicornViewError string
  | KeyError string
  | AttributeError string
  | TypeError string
  | ValueError string
  | IndexError
  | InvalidKwarg

datatype pytype = TNone | TBool | TInt | TStr | TList | TDict | TOpaque

fun type_of :: "pyval \<Rightarrow> pytype option" where
  "type_of PNone = Some TNone"
| "type_of (PBool _) = Some TBool"
| "type_of (PInt _) = Some TInt"
| "type_of (PStr _) = Some TStr"
| "type_of (PList _) = Some TList"
| "type_of (PDict _) = Some TDict"
| "type_of (PObj _ _) = None"
| "type_of (POpaque _) = Some TOpaque"

text \<open>
  What the module calls but does not define is a parameter of the model:
  \<^item> \<open>builtin_has\<close>: the attribute names of Python's built-in types (\<open>dict\<close> has
    \<open>items\<close>, \<open>get\<close>, ...);
  \<^item> \<open>invoke\<close>: a method call \<open>obj.name(*args)\<close> on an object of the component
    graph, by its effect on the receiver and its return value, or the exception raised;
  \<^item> \<open>create\<close>: \<open>UnicornView.create(component_id, component_name, use_cache)\<close>;
  \<^item> \<open>orjson_loads\<close>, \<open>loads\<close>: the two JSON decoders applied to the value
    \<open>get_frontend_context_variables\<close> returned;
  \<^item> \<open>parse_call_method_name\<close>, \<open>parse_kwarg\<close>: the call-expression parsers;
  \<^item> \<open>new_Return\<close>, \<open>set_Return_value\<close>, \<open>Return_get_data\<close>: the constructor, the
    \<open>value\<close> setter and \<open>get_data\<close> of \<open>message.Return\<close>;
  \<^item> \<open>issubclass_Model\<close>: \<open>issubclass(x, Model)\<close>, \<open>None\<close> where Python raises
    \<open>TypeError\<close> because \<open>x\<close> is not a class;
  \<^item> \<open>find_checksum\<close>: the scan of the parent's markup for the first element with a
    \<open>unicorn:checksum\<close> attribute;
  \<^item> \<open>py_str\<close>: the text an f-string puts for a value.
\<close>

record collab =
  builtin_has :: "pytype \<Rightarrow> string \<Rightarrow> bool"
  invoke :: "pyval \<Rightarrow> string \<Rightarrow> pyval list \<Rightarrow> error + (pyval \<times> pyval)"
  create :: "pyval \<Rightarrow> string \<Rightarrow> bool option \<Rightarrow> error + pyval"
  orjson_loads :: "pyval \<Rightarrow> error + pyval"
  loads :: "pyval \<Rightarrow> error + pyval"
  parse_call_method_name :: "pyval \<Rightarrow> error + (string \<times> pyval list)"
  parse_kwarg :: "pyval \<Rightarrow> error + dict"
  new_Return :: "pyval \<Rightarrow> pyval list \<Rightarrow> pyval"
  set_Return_value :: "pyval \<Rightarrow> pyval \<Rightarrow> pyval"
  Return_get_data :: "pyval \<Rightarrow> pyval"
  issubclass_Model :: "pyval \<Rightarrow> bool option"
  find_checksum :: "pyval \<Rightarrow> pyval"
  py_str :: "pyval \<Rightarrow> string"

subsection \<open>Attribute access, truthiness, dictionaries\<close>

definition py_getattr :: "collab \<Rightarrow> pyval \<Rightarrow> string \<Rightarrow> pyval option" where
  "py_getattr E v n =
     (case v of
        PObj k as \<Rightarrow> map_of as n
      | _ \<Rightarrow> (case type_of v of
                None \<Rightarrow> None
              | Some t \<Rightarrow> if builtin_has E t n then Some (POpaque n) else None))"

definition py_hasattr :: "collab \<Rightarrow> pyval \<Rightarrow> string \<Rightarrow> bool" where
  "py_hasattr E v n = (py_getattr E v n \<noteq> None)"

text \<open>\<open>setattr\<close> succeeds on an object of the graph; a value of a built-in type refuses it.\<close>

definition py_setattr :: "pyval \<Rightarrow> string \<Rightarrow> pyval \<Rightarrow> error + pyval" where
  "py_setattr obj n v =
     (case obj of
        PObj k as \<Rightarrow> Inr (PObj k (AList.update n v as))
      | _ \<Rightarrow> Inl (AttributeError n))"

fun py_truthy :: "pyval \<Rightarrow> bool" where
  "py_truthy PNone = False"
| "py_truthy (PBool b) = b"
| "py_truthy (PInt i) = (i \<noteq> 0)"
| "py_truthy (PStr s) = (s \<noteq> [])"
| "py_truthy (PList xs) = (xs \<noteq> [])"
| "py_truthy (PDict d) = (d \<noteq> [])"
| "py_truthy (PObj k as) = True"
| "py_truthy (POpaque s) = True"

fun is_dict :: "pyval \<Rightarrow> bool" where
  "is_dict (PDict d) = True"
| "is_dict _ = False"

text \<open>
  \<open>==\<close> on values: a boolean counts as the integer 0 or 1, lists are compared element
  by element, dictionaries (their keys being distinct) by their keys and the values under
  them; objects are compared as the model holds them.
\<close>

fun py_num :: "pyval \<Rightarrow> int option" where
  "py_num (PBool b) = Some (if b then 1 else 0)"
| "py_num (PInt i) = Some i"
| "py_num v = None"

lemma size_item_of: "map_of as n = Some c \<Longrightarrow> size c < Suc (size_list (size_prod (\<lambda>x. 0) size) as)"
  by (induction as) (auto split: if_splits)

lemma size_item_in: "kv \<in> set as \<Longrightarrow> size (snd kv) < Suc (size_list (size_prod (\<lambda>x. 0) size) as)"
  by (induction as) auto

lemma size_element_in: "x \<in> set xs \<Longrightarrow> size x < Suc (size_list size xs)"
  by (induction xs) auto

function py_eq :: "pyval \<Rightarrow> pyval \<Rightarrow> bool" where
  "py_eq a b =
     (case (a, b) of
        (PNone, PNone) \<Rightarrow> True
      | (PStr s, PStr t) \<Rightarrow> s = t
      | (PList xs, PList ys) \<Rightarrow> list_all2 py_eq xs ys
      | (PDict d, PDict e) \<Rightarrow>
          length d = length e
          \<and> (\<forall>kv \<in> set d. case map_of e (fst kv) of
                             None \<Rightarrow> False
                           | Some v \<Rightarrow> py_eq (snd kv) v)
      | (PObj k as, y) \<Rightarrow> PObj k as = y
      | (POpaque s, y) \<Rightarrow> POpaque s = y
      | (x, y) \<Rightarrow> (case (py_num x, py_num y) of (Some i, Some j) \<Rightarrow> i = j | _ \<Rightarrow> False))"
  by pat_completeness auto
termination py_eq
proof (relation "measure (\<lambda>(a, b). size a + size b)", goal_cases)
  case 1
  show ?case by simp
next
  case (2 a b x y xs ys z yb)
  with size_element_in [of z xs] size_element_in [of yb ys] show ?case by auto
next
  case (3 a b x y d e kv v)
  with size_item_in [of kv d] size_item_of [of e "fst kv" v] show ?case by auto
qed

declare py_eq.simps [simp del]

text \<open>\<open>d.get(k)\<close> with the default \<open>None\<close>.\<close>

definition dict_get :: "dict \<Rightarrow> string \<Rightarrow> pyval" where
  "dict_get d k = (case map_of d k of None \<Rightarrow> PNone | Some v \<Rightarrow> v)"

text \<open>\<open>str.split(".")\<close>: never empty, an empty segment between two adjacent dots.\<close>

fun split_dot :: "string \<Rightarrow> string list" where
  "split_dot [] = [[]]"
| "split_dot (c # cs) =
     (if c = CHR ''.'' then [] # split_dot cs
      else (case split_dot cs of [] \<Rightarrow> [[c]] | w # ws \<Rightarrow> (c # w) # ws))"

text \<open>\<open>str.replace(".", "_")\<close>.\<close>

definition snake_case :: "string \<Rightarrow> string" where
  "snake_case s = map (\<lambda>c. if c = CHR ''.'' then CHR ''_'' else c) s"

section \<open>Property path engine\<close>

subsection \<open>\<open>_get_property_value\<close>\<close>

text \<open>
  The loop of \<open>_get_property_value\<close> over the remaining segments; \<open>ps = []\<close> is the
  test \<open>idx == len(property_name_parts) - 1\<close>. A segment that is neither an attribute
  of the current node nor looked up in a dictionary is passed over, and a loop that
  ends without \<open>return\<close> yields \<open>None\<close>. Subscripting a dictionary with a key it
  does not hold raises \<open>KeyError\<close>.
\<close>

fun get_loop :: "collab \<Rightarrow> pyval \<Rightarrow> string list \<Rightarrow> error + pyval" where
  "get_loop E cur [] = Inr PNone"
| "get_loop E cur (p # ps) =
     (case py_getattr E cur p of
        Some x \<Rightarrow> if ps = [] then Inr x else get_loop E x ps
      | None \<Rightarrow>
          (case cur of
             PDict d \<Rightarrow>
               (case map_of d p of
                  None \<Rightarrow> Inl (KeyError p)
                | Some x \<Rightarrow> if ps = [] then Inr x else get_loop E x ps)
           | _ \<Rightarrow> get_loop E cur ps))"

text \<open>
  The property name is a value of the request: \<open>None\<close> fails the assertion, and
  anything but a string has no \<open>split\<close>.
\<close>

definition get_property_value :: "collab \<Rightarrow> pyval \<Rightarrow> pyval \<Rightarrow> error + pyval" where
  "get_property_value E component property_name =
     (case property_name of
        PNone \<Rightarrow> Inl (AssertionError ''property_name name is required'')
      | PStr s \<Rightarrow> get_loop E component (split_dot s)
      | _ \<Rightarrow> Inl (AttributeError ''split''))"


subsection \<open>\<open>_set_property_value\<close>\<close>

text \<open>
  A method call on an object of the graph: \<open>AttributeError\<close> when the object does
  not expose the name, the collaborator's effect otherwise.
\<close>

definition call_method ::
  "collab \<Rightarrow> pyval \<Rightarrow> string \<Rightarrow> pyval list \<Rightarrow> error + (pyval \<times> pyval)" where
  "call_method E obj n args =
     (if py_hasattr E obj n then invoke E obj n args else Inl (AttributeError n))"

text \<open>
  \<open>component_or_field\<close> and \<open>data_or_dict\<close> are references into the component and
  into the data dictionary. The model keeps, beside the node, the steps that lead to it
  from the root, and writes through them. \<open>data_or_dict\<close> is either a node inside
  \<open>data\<close> or the fresh \<open>{}\<close> that \<open>get(part, {})\<close> returned for a missing key; what
  is written into the latter is lost.
\<close>

datatype step = Attr string | Key string

fun lookup_at :: "pyval \<Rightarrow> step list \<Rightarrow> pyval option" where
  "lookup_at v [] = Some v"
| "lookup_at (PObj k as) (Attr n # ss) =
     (case map_of as n of None \<Rightarrow> None | Some c \<Rightarrow> lookup_at c ss)"
| "lookup_at (PDict d) (Key n # ss) =
     (case map_of d n of None \<Rightarrow> None | Some c \<Rightarrow> lookup_at c ss)"
| "lookup_at v (s # ss) = None"

fun update_at :: "pyval \<Rightarrow> step list \<Rightarrow> (pyval \<Rightarrow> pyval) \<Rightarrow> pyval" where
  "update_at v [] f = f v"
| "update_at (PObj k as) (Attr n # ss) f =
     (case map_of as n of
        None \<Rightarrow> PObj k as
      | Some c \<Rightarrow> PObj k (AList.update n (update_at c ss f) as))"
| "update_at (PDict d) (Key n # ss) f =
     (case map_of d n of
        None \<Rightarrow> PDict d
      | Some c \<Rightarrow> PDict (AList.update n (update_at c ss f) d))"
| "update_at v (s # ss) f = v"

fun put_attr :: "string \<Rightarrow> pyval \<Rightarrow> pyval \<Rightarrow> pyval" where
  "put_attr n v (PObj k as) = PObj k (AList.update n v as)"
| "put_attr n v obj = obj"

fun put_item :: "string \<Rightarrow> pyval \<Rightarrow> pyval \<Rightarrow> pyval" where
  "put_item n v (PDict d) = PDict (AList.update n v d)"
| "put_item n v x = x"

datatype shadow_ref = Within "step list" | Fresh

text \<open>\<open>data_or_dict.get(part, {})\<close>: only a dictionary has \<open>get\<close>.\<close>

definition shadow_get :: "pyval \<Rightarrow> shadow_ref \<Rightarrow> string \<Rightarrow> error + shadow_ref" where
  "shadow_get data r p =
     (case r of
        Fresh \<Rightarrow> Inr Fresh
      | Within ks \<Rightarrow>
          (case lookup_at data ks of
             Some (PDict d) \<Rightarrow>
               (case map_of d p of None \<Rightarrow> Inr Fresh | Some x \<Rightarrow> Inr (Within (ks @ [Key p])))
           | _ \<Rightarrow> Inl (AttributeError ''get'')))"

text \<open>\<open>data_or_dict[part] = value\<close>: only a dictionary takes a string subscript.\<close>

definition shadow_set :: "pyval \<Rightarrow> shadow_ref \<Rightarrow> string \<Rightarrow> pyval \<Rightarrow> error + pyval" where
  "shadow_set data r p v =
     (case r of
        Fresh \<Rightarrow> Inr data
      | Within ks \<Rightarrow>
          (case lookup_at data ks of
             Some (PDict d) \<Rightarrow> Inr (update_at data ks (put_item p v))
           | _ \<Rightarrow> Inl (TypeError ''item assignment'')))"

text \<open>
  The hook \<open>updating_<name>\<close> or \<open>updated_<name>\<close> of a nested property, called on
  the component when it has one.
\<close>

definition nested_hook :: "collab \<Rightarrow> pyval \<Rightarrow> string \<Rightarrow> pyval \<Rightarrow> error + pyval" where
  "nested_hook E component function_name property_value =
     (if py_hasattr E component function_name
      then (case invoke E component function_name [property_value] of
              Inl e \<Rightarrow> Inl e
            | Inr (component', r) \<Rightarrow> Inr component')
      else Inr component)"

text \<open>
  The branch of the last segment when the current node has the attribute: delegation to
  \<open>_set_property\<close> where the node has it, else the nested hooks around \<open>setattr\<close>;
  then the write into the data dictionary.
\<close>

definition set_terminal_attr ::
  "collab \<Rightarrow> string \<Rightarrow> pyval \<Rightarrow> pyval \<Rightarrow> pyval \<Rightarrow> pyval \<Rightarrow> step list \<Rightarrow> shadow_ref \<Rightarrow> string
     \<Rightarrow> error + (pyval \<times> pyval)" where
  "set_terminal_attr E property_name property_value component data cur path r p =
     (case
        (if py_hasattr E cur ''_set_property''
         then (case invoke E cur ''_set_property'' [PStr p, property_value] of
                 Inl e \<Rightarrow> Inl e
               | Inr (cur', x) \<Rightarrow> Inr (update_at component path (\<lambda>old. cur')))
         else
           (case nested_hook E component (''updating_'' @ snake_case property_name) property_value of
              Inl e \<Rightarrow> Inl e
            | Inr component1 \<Rightarrow>
                (case py_setattr cur p property_value of
                   Inl e \<Rightarrow> Inl e
                 | Inr x \<Rightarrow>
                     nested_hook E (update_at component1 path (put_attr p property_value))
                       (''updated_'' @ snake_case property_name) property_value)))
      of
        Inl e \<Rightarrow> Inl e
      | Inr component' \<Rightarrow>
          (case shadow_set data r p property_value of
             Inl e \<Rightarrow> Inl e
           | Inr data' \<Rightarrow> Inr (component', data')))"

text \<open>
  The loop of \<open>_set_property_value\<close>. Nothing is written before the last segment, so
  the component and the data dictionary are the ones the loop started with until then.
  A segment that is no attribute of a node that is no dictionary is passed over: the
  loop goes on with the next segment at the same node.
\<close>

fun set_loop ::
  "collab \<Rightarrow> string \<Rightarrow> pyval \<Rightarrow> pyval \<Rightarrow> pyval \<Rightarrow> pyval \<Rightarrow> step list \<Rightarrow> shadow_ref \<Rightarrow> string list
     \<Rightarrow> error + (pyval \<times> pyval)" where
  "set_loop E property_name property_value component data cur path r [] = Inr (component, data)"
| "set_loop E property_name property_value component data cur path r (p # ps) =
     (case py_getattr E cur p of
        Some x \<Rightarrow>
          if ps = [] then set_terminal_attr E property_name property_value component data cur path r p
          else (case shadow_get data r p of
                  Inl e \<Rightarrow> Inl e
                | Inr r' \<Rightarrow>
                    set_loop E property_name property_value component data x (path @ [Attr p]) r' ps)
      | None \<Rightarrow>
          (case cur of
             PDict d \<Rightarrow>
               if ps = [] then
                 (case shadow_set data r p property_value of
                    Inl e \<Rightarrow> Inl e
                  | Inr data' \<Rightarrow> Inr (update_at component path (put_item p property_value), data'))
               else
                 (case map_of d p of
                    None \<Rightarrow> Inl (KeyError p)
                  | Some x \<Rightarrow>
                      (case shadow_get data r p of
                         Inl e \<Rightarrow> Inl e
                       | Inr r' \<Rightarrow>
                           set_loop E property_name property_value component data x
                             (path @ [Key p]) r' ps))
           | _ \<Rightarrow> set_loop E property_name property_value component data cur path r ps))"

definition set_property_value ::
  "collab \<Rightarrow> pyval \<Rightarrow> pyval \<Rightarrow> pyval \<Rightarrow> pyval \<Rightarrow> error + (pyval \<times> pyval)" where
  "set_property_value E component property_name property_value data =
     (if property_name = PNone then Inl (AssertionError ''Property name is required'')
      else if property_value = PNone then Inl (AssertionError ''Property value is required'')
      else
        (case call_method E component ''updating'' [property_name, property_value] of
           Inl e \<Rightarrow> Inl e
         | Inr (component1, x) \<Rightarrow>
             (case property_name of
                PStr s \<Rightarrow>
                  (case set_loop E s property_value component1 data component1 [] (Within [])
                          (split_dot s) of
                     Inl e \<Rightarrow> Inl e
                   | Inr (component2, data') \<Rightarrow>
                       (case call_method E component2 ''updated'' [property_name, property_value] of
                          Inl e \<Rightarrow> Inl e
                        | Inr (component3, y) \<Rightarrow> Inr (component3, data')))
              | _ \<Rightarrow> Inl (AttributeError ''split''))))"


text \<open>
  Where the loop of \<open>_set_property_value\<close> stands after the given segments, none of
  them the last of the path: the node, the steps that lead to it and the place in the
  data dictionary, or the exception raised on the way.
\<close>

fun set_descend ::
  "collab \<Rightarrow> pyval \<Rightarrow> pyval \<Rightarrow> step list \<Rightarrow> shadow_ref \<Rightarrow> string list
     \<Rightarrow> error + (pyval \<times> step list \<times> shadow_ref)" where
  "set_descend E data cur path r [] = Inr (cur, path, r)"
| "set_descend E data cur path r (p # ps) =
     (case py_getattr E cur p of
        Some x \<Rightarrow>
          (case shadow_get data r p of
             Inl e \<Rightarrow> Inl e
           | Inr r' \<Rightarrow> set_descend E data x (path @ [Attr p]) r' ps)
      | None \<Rightarrow>
          (case cur of
             PDict d \<Rightarrow>
               (case map_of d p of
                  None \<Rightarrow> Inl (KeyError p)
                | Some x \<Rightarrow>
                    (case shadow_get data r p of
                       Inl e \<Rightarrow> Inl e
                     | Inr r' \<Rightarrow> set_descend E data x (path @ [Key p]) r' ps))
           | _ \<Rightarrow> set_descend E data cur path r ps))"

text \<open>
  The key of the data dictionary that the loop assigns to, when the write of the last
  segment is \<open>data[part] = value\<close> on the data dictionary itself: no step was taken
  before the last segment, and the last segment is written.
\<close>

definition assigned_key :: "collab \<Rightarrow> pyval \<Rightarrow> pyval \<Rightarrow> string list \<Rightarrow> string option" where
  "assigned_key E component data parts =
     (case set_descend E data component [] (Within []) (butlast parts) of
        Inr (cur, path, Within []) \<Rightarrow>
          if py_hasattr E cur (last parts) \<or> is_dict cur then Some (last parts) else None
      | _ \<Rightarrow> None)"

subsection \<open>\<open>_set_property_from_data\<close>\<close>

fun is_field_or_model :: "pyval \<Rightarrow> bool" where
  "is_field_or_model (PObj UnicornFieldK as) = True"
| "is_field_or_model (PObj ModelK as) = True"
| "is_field_or_model v = False"

text \<open>
  The recursion of \<open>_set_property_from_data\<close>, and its \<open>for key in value.keys()\<close>
  loop as \<open>set_fields_from_data\<close>. The field is changed in place, so the object that
  holds it sees the change: the model puts the changed field back under its name.
\<close>

function set_property_from_data :: "collab \<Rightarrow> pyval \<Rightarrow> pyval \<Rightarrow> pyval \<Rightarrow> error + pyval"
  and set_fields_from_data :: "collab \<Rightarrow> pyval \<Rightarrow> dict \<Rightarrow> error + pyval" where
  "set_property_from_data E component_or_field name v =
     (case name of
        PStr n \<Rightarrow>
          (case py_getattr E component_or_field n of
             None \<Rightarrow> Inr component_or_field
           | Some field \<Rightarrow>
               if is_field_or_model field then
                 (case v of
                    PDict d \<Rightarrow>
                      (case set_fields_from_data E field d of
                         Inl e \<Rightarrow> Inl e
                       | Inr field' \<Rightarrow> Inr (put_attr n field' component_or_field))
                  | _ \<Rightarrow>
                      (case py_getattr E field ''name'' of
                         None \<Rightarrow> Inl (AttributeError ''name'')
                       | Some field_name \<Rightarrow>
                           (case set_property_from_data E field field_name v of
                              Inl e \<Rightarrow> Inl e
                            | Inr field' \<Rightarrow> Inr (put_attr n field' component_or_field))))
               else if py_hasattr E component_or_field ''_set_property''
               then (case invoke E component_or_field ''_set_property'' [PStr n, v] of
                       Inl e \<Rightarrow> Inl e
                     | Inr (component_or_field', x) \<Rightarrow> Inr component_or_field')
               else py_setattr component_or_field n v)
      | _ \<Rightarrow> Inl (TypeError ''attribute name must be string''))"
| "set_fields_from_data E field [] = Inr field"
| "set_fields_from_data E field ((key, key_value) # rest) =
     (case set_property_from_data E field (PStr key) key_value of
        Inl e \<Rightarrow> Inl e
      | Inr field' \<Rightarrow> set_fields_from_data E field' rest)"
  by pat_completeness auto

lemma getattr_field_smaller:
  "py_getattr E obj n = Some field \<Longrightarrow> is_field_or_model field \<Longrightarrow> size field < size obj"
  by (cases obj) (auto simp: py_getattr_def dest: size_item_of split: if_splits option.splits)

termination set_property_from_data
  by (relation "inv_image (less_than <*lex*> less_than <*lex*> less_than)
        (\<lambda>x. case x of
               Inl (E, obj, n, v) \<Rightarrow> (size v, Suc 0, size obj)
             | Inr (E, field, d) \<Rightarrow> (size (PDict d), 0, 0))")
     (auto dest: getattr_field_smaller)

subsection \<open>\<open>_call_method_name\<close>\<close>

text \<open>
  The parsers yield the method name as a string, so it is never \<open>None\<close>; a method the
  component does not expose is not called, and the result is \<open>None\<close>.
\<close>

definition call_method_name ::
  "collab \<Rightarrow> pyval \<Rightarrow> string \<Rightarrow> pyval list \<Rightarrow> error + (pyval \<times> pyval)" where
  "call_method_name E component method_name params =
     (if py_hasattr E component method_name
      then invoke E component method_name params
      else Inr (component, PNone))"


section \<open>Action dispatcher\<close>

subsection \<open>Requests and state\<close>

text \<open>
  An action of the queue is a JSON object; its tag is a string or missing, its payload a
  JSON object (\<open>{}\<close> when missing).
\<close>

record action =
  a_type :: "string option"
  a_payload :: dict

record component_request =
  cr_id :: pyval
  cr_data :: pyval
  cr_action_queue :: "action list"
  cr_epoch :: int

text \<open>
  State that outlives one call of the dispatcher:
  \<^item> \<open>Meta\<close>: per component name, the \<open>Meta\<close> class of the component class and its
    \<open>db_models\<close> list, each absent or present. An entry's \<open>defaults\<close> is a reference
    to a dictionary of \<open>heap\<close>, since the dispatcher updates that dictionary in place;
  \<^item> \<open>default_data\<close>: the one dictionary that is the default value of the parameter
    \<open>data\<close> of \<open>_set_property_value\<close>;
  \<^item> \<open>db_calls\<close>: the calls made to the persisted-record store, in order.
\<close>

record db_model =
  dm_name :: pyval
  dm_model_class :: pyval
  dm_defaults :: nat

datatype db_call = DbUpdate pyval pyval dict | DbCreate pyval dict

record pworld =
  Meta :: "string \<Rightarrow> db_model list option option"
  heap :: "nat \<Rightarrow> dict"
  default_data :: pyval
  db_calls :: "db_call list"

text \<open>
  The local variables of \<open>_process_component_request\<close> that the loop changes.
  \<open>original_data\<close> is a shallow copy: under each key it holds the very value the data
  holds, until the loop assigns that key of the data anew. \<open>st_rebound\<close> records, for
  every key assigned anew, the value the data held under it just before; under the other
  keys the copy shows what the data shows.
\<close>

record pstate =
  st_component :: pyval
  st_data :: pyval
  st_validate_all_fields :: bool
  st_is_reset_called :: bool
  st_return_data :: "pyval option"
  st_world :: pworld
  st_rebound :: dict

subsection \<open>\<open>syncInput\<close>\<close>

text \<open>
  The key of the data that a \<open>_set_property_value\<close> on the data of the request assigns
  anew, seen from the component as the hook \<open>updating\<close> leaves it, and the record of
  the value that key held.
\<close>

definition rebound_key :: "collab \<Rightarrow> pyval \<Rightarrow> pyval \<Rightarrow> pyval \<Rightarrow> pyval \<Rightarrow> string option" where
  "rebound_key E component property_name property_value data =
     (case property_name of
        PStr s \<Rightarrow>
          (case call_method E component ''updating'' [property_name, property_value] of
             Inl e \<Rightarrow> None
           | Inr (component1, x) \<Rightarrow> assigned_key E component1 data (split_dot s))
      | _ \<Rightarrow> None)"

definition note_rebound :: "string option \<Rightarrow> pyval \<Rightarrow> dict \<Rightarrow> dict" where
  "note_rebound key data rebound =
     (case key of
        None \<Rightarrow> rebound
      | Some k \<Rightarrow>
          (case map_of rebound k of
             Some x \<Rightarrow> rebound
           | None \<Rightarrow>
               (case data of
                  PDict d \<Rightarrow> (case map_of d k of None \<Rightarrow> rebound | Some old \<Rightarrow> (k, old) # rebound)
                | _ \<Rightarrow> rebound)))"

definition apply_sync_input :: "collab \<Rightarrow> pstate \<Rightarrow> dict \<Rightarrow> error + pstate" where
  "apply_sync_input E st payload =
     (case set_property_value E (st_component st) (dict_get payload ''name'')
             (dict_get payload ''value'') (st_data st) of
        Inl e \<Rightarrow> Inl e
      | Inr (component', data') \<Rightarrow>
          Inr (st\<lparr>st_component := component', st_data := data',
                  st_rebound :=
                    note_rebound
                      (rebound_key E (st_component st) (dict_get payload ''name'')
                         (dict_get payload ''value'') (st_data st))
                      (st_data st) (st_rebound st)\<rparr>))"

subsection \<open>\<open>dbInput\<close>\<close>

text \<open>The first entry of \<open>db_models\<close> that matches, as the \<open>for\<close> loop with \<open>break\<close> finds it.\<close>

fun find_db_model :: "(db_model \<Rightarrow> bool) \<Rightarrow> db_model list \<Rightarrow> db_model option" where
  "find_db_model P [] = None"
| "find_db_model P (m # ms) = (if P m then Some m else find_db_model P ms)"

text \<open>
  Lines 256 to 280: the record type \<open>DbModel\<close> and the defaults. \<open>db_defaults\<close> is
  \<open>None\<close> for the local \<open>{}\<close> and \<open>Some a\<close> when it is the dictionary at \<open>a\<close> of a
  \<open>db_models\<close> entry.
\<close>

definition resolve_by_model ::
  "collab \<Rightarrow> pworld \<Rightarrow> string \<Rightarrow> pyval \<Rightarrow> pyval \<Rightarrow> error + (pyval \<times> nat option)" where
  "resolve_by_model E w component_name component model =
     (if py_truthy model then
        (case model of
           PStr model_name \<Rightarrow>
             (case py_getattr E component model_name of
                None \<Rightarrow> Inl (AttributeError model_name)
              | Some model_class \<Rightarrow>
                  (case py_getattr E model_class ''model'' of
                     None \<Rightarrow> Inr (PNone, None)
                   | Some db_model \<Rightarrow>
                       (case Meta w component_name of
                          None \<Rightarrow> Inr (db_model, None)
                        | Some None \<Rightarrow> Inl (AttributeError ''db_models'')
                        | Some (Some db_models) \<Rightarrow>
                            (case find_db_model (\<lambda>m. dm_model_class m = db_model) db_models of
                               None \<Rightarrow> Inr (db_model, None)
                             | Some m \<Rightarrow> Inr (db_model, Some (dm_defaults m))))))
         | _ \<Rightarrow> Inl (TypeError ''attribute name must be string''))
      else Inr (PNone, None))"

definition resolve_by_name ::
  "pworld \<Rightarrow> string \<Rightarrow> pyval \<Rightarrow> pyval \<times> nat option \<Rightarrow> error + (pyval \<times> nat option)" where
  "resolve_by_name w component_name db_model_name found =
     (if \<not> py_truthy (fst found) \<and> py_truthy db_model_name then
        (case Meta w component_name of
           Some (Some db_models) \<Rightarrow>
             (case find_db_model (\<lambda>m. dm_name m = db_model_name) db_models of
                None \<Rightarrow> Inr found
              | Some m \<Rightarrow> Inr (dm_model_class m, Some (dm_defaults m)))
         | _ \<Rightarrow> Inl (AssertionError ''Missing Meta.db_models list in component''))
      else Inr found)"

text \<open>\<open>d.update(f)\<close> for a dictionary \<open>f\<close>: its items are stored one after the other.\<close>

definition dict_update :: "dict \<Rightarrow> dict \<Rightarrow> dict" where
  "dict_update d f = foldl (\<lambda>acc kv. AList.update (fst kv) (snd kv) acc) d f"

text \<open>
  What \<open>d.update(x)\<close> stores. A dictionary gives its items. A list gives one item per
  element, each element a sequence of two: a list of two values, a string of two
  characters, a dictionary of two keys; anything else in the list fails, as does a key
  that cannot be hashed. A string has elements of length one. The items are then passed as
  keyword arguments, which must be strings.
\<close>

fun update_item :: "pyval \<Rightarrow> error + (pyval \<times> pyval)" where
  "update_item (PList [k, v]) = Inr (k, v)"
| "update_item (PList xs) = Inl (ValueError ''dictionary update sequence element has the wrong length'')"
| "update_item (PStr [a, b]) = Inr (PStr [a], PStr [b])"
| "update_item (PStr s) = Inl (ValueError ''dictionary update sequence element has the wrong length'')"
| "update_item (PDict [(k1, v1), (k2, v2)]) = Inr (PStr k1, PStr k2)"
| "update_item (PDict d) = Inl (ValueError ''dictionary update sequence element has the wrong length'')"
| "update_item x = Inl (TypeError ''cannot convert dictionary update sequence element to a sequence'')"

fun update_items :: "pyval list \<Rightarrow> error + (pyval \<times> pyval) list" where
  "update_items [] = Inr []"
| "update_items (x # xs) =
     (case update_item x of
        Inl e \<Rightarrow> Inl e
      | Inr (k, v) \<Rightarrow>
          if is_dict k \<or> (case k of PList ys \<Rightarrow> True | _ \<Rightarrow> False)
          then Inl (TypeError ''unhashable type'')
          else (case update_items xs of Inl e \<Rightarrow> Inl e | Inr kvs \<Rightarrow> Inr ((k, v) # kvs)))"

fun keyword_items :: "(pyval \<times> pyval) list \<Rightarrow> error + dict" where
  "keyword_items [] = Inr []"
| "keyword_items ((k, v) # kvs) =
     (case k of
        PStr s \<Rightarrow> (case keyword_items kvs of Inl e \<Rightarrow> Inl e | Inr f \<Rightarrow> Inr ((s, v) # f))
      | _ \<Rightarrow> Inl (TypeError ''keywords must be strings''))"

definition update_argument :: "pyval \<Rightarrow> error + dict" where
  "update_argument x =
     (case x of
        PDict f \<Rightarrow> Inr f
      | PList xs \<Rightarrow> (case update_items xs of Inl e \<Rightarrow> Inl e | Inr kvs \<Rightarrow> keyword_items kvs)
      | PStr s \<Rightarrow> Inl (ValueError ''dictionary update sequence element has the wrong length'')
      | _ \<Rightarrow> Inl (TypeError ''object is not iterable''))"

text \<open>
  Lines 291 to 300. \<open>fields_to_update\<close> is the very dictionary \<open>db_defaults\<close>, so
  the update lands in the heap when the defaults came from an entry. The key the store
  gives a new record is assigned to \<open>pk\<close> and not read again.
\<close>

definition write_fields :: "pworld \<Rightarrow> pyval \<Rightarrow> nat option \<Rightarrow> pyval \<Rightarrow> pyval \<Rightarrow> error + pworld" where
  "write_fields w db_model db_defaults pk field_values =
     (if py_truthy field_values then
        (case update_argument field_values of
           Inl e \<Rightarrow> Inl e
         | Inr f \<Rightarrow>
             (let fields_to_update =
                    dict_update (case db_defaults of None \<Rightarrow> [] | Some a \<Rightarrow> heap w a) f;
                  w1 = (case db_defaults of
                          None \<Rightarrow> w
                        | Some a \<Rightarrow> w\<lparr>heap := (heap w)(a := fields_to_update)\<rparr>)
              in Inr (w1\<lparr>db_calls := db_calls w1 @
                        [if py_truthy pk then DbUpdate db_model pk fields_to_update
                         else DbCreate db_model fields_to_update]\<rparr>)))
      else Inr w)"

definition apply_db_input :: "collab \<Rightarrow> string \<Rightarrow> pstate \<Rightarrow> dict \<Rightarrow> error + pstate" where
  "apply_db_input E component_name st payload =
     (let model = dict_get payload ''model'';
          db = (case map_of payload ''db'' of None \<Rightarrow> PDict [] | Some x \<Rightarrow> x)
      in case db of
           PDict dbd \<Rightarrow>
             (let db_model_name = dict_get dbd ''name''; pk = dict_get dbd ''pk''
              in case resolve_by_model E (st_world st) component_name (st_component st) model of
                   Inl e \<Rightarrow> Inl e
                 | Inr found \<Rightarrow>
                     (case resolve_by_name (st_world st) component_name db_model_name found of
                        Inl e \<Rightarrow> Inl e
                      | Inr (db_model, db_defaults) \<Rightarrow>
                          (let field_values = (case map_of payload ''fields'' of
                                           None \<Rightarrow> PDict [] | Some x \<Rightarrow> x)
                           in if \<not> py_truthy db_model then
                                Inl (AssertionError (''Missing '' @ py_str E model @ ''.model and ''
                                       @ py_str E db_model_name @ '' in Meta.db_models''))
                              else
                                (case issubclass_Model E db_model of
                                   None \<Rightarrow> Inl (TypeError ''issubclass() arg 1 must be a class'')
                                 | Some False \<Rightarrow>
                                     Inl (AssertionError
                                            ''Model must be an instance of `django.db.models.Model'')
                                 | Some True \<Rightarrow>
                                     (case write_fields (st_world st) db_model db_defaults pk field_values of
                                        Inl e \<Rightarrow> Inl e
                                      | Inr w' \<Rightarrow> Inr (st\<lparr>st_world := w'\<rparr>))))))
         | _ \<Rightarrow> Inl (AttributeError ''get''))"


subsection \<open>\<open>callMethod\<close>\<close>

text \<open>
  \<open>"=" in call_method_name\<close>, for whatever value the payload holds under \<open>name\<close>
  (the local variable \<open>call_method_name\<close> is \<open>name_expr\<close> below).
\<close>

definition contains_equals :: "pyval \<Rightarrow> error + bool" where
  "contains_equals x =
     (case x of
        PStr s \<Rightarrow> Inr (CHR ''='' \<in> set s)
      | PList xs \<Rightarrow> Inr (PStr ''='' \<in> set xs)
      | PDict d \<Rightarrow> Inr (''='' \<in> fst ` set d)
      | _ \<Rightarrow> Inl (TypeError ''argument is not iterable''))"

text \<open>Lines 307 to 315: \<open>InvalidKwarg\<close> is swallowed, and the setter stays \<open>{}\<close>.\<close>

definition parse_setter :: "collab \<Rightarrow> pyval \<Rightarrow> error + dict" where
  "parse_setter E name_expr =
     (case contains_equals name_expr of
        Inl e \<Rightarrow> Inl e
      | Inr False \<Rightarrow> Inr []
      | Inr True \<Rightarrow>
          (case parse_kwarg E name_expr of
             Inl InvalidKwarg \<Rightarrow> Inr []
           | Inl e \<Rightarrow> Inl e
           | Inr d \<Rightarrow> Inr d))"

text \<open>
  The \<open>$toggle\<close> loop. \<open>_set_property_value\<close> is called without \<open>data\<close> here, so it
  works on the default dictionary.
\<close>

fun toggle_loop :: "collab \<Rightarrow> pyval \<Rightarrow> pyval \<Rightarrow> pyval list \<Rightarrow> error + (pyval \<times> pyval)" where
  "toggle_loop E component dd [] = Inr (component, dd)"
| "toggle_loop E component dd (property_name # rest) =
     (case get_property_value E component property_name of
        Inl e \<Rightarrow> Inl e
      | Inr property_value \<Rightarrow>
          (case set_property_value E component property_name
                  (PBool (\<not> py_truthy property_value)) dd of
             Inl e \<Rightarrow> Inl e
           | Inr (component', dd') \<Rightarrow> toggle_loop E component' dd' rest))"

text \<open>Lines 324 to 358: the special methods, else the method of the component.\<close>

definition dispatch_method ::
  "collab \<Rightarrow> pyval \<Rightarrow> string \<Rightarrow> pstate \<Rightarrow> string \<Rightarrow> pyval list \<Rightarrow> error + pstate" where
  "dispatch_method E component_id component_name st method_name params =
     (if method_name = ''$refresh'' then
        (case create E component_id component_name (Some True) of
           Inl e \<Rightarrow> Inl e
         | Inr component' \<Rightarrow> Inr (st\<lparr>st_component := component'\<rparr>))
      else if method_name = ''$reset'' then
        (case create E component_id component_name (Some False) of
           Inl e \<Rightarrow> Inl e
         | Inr component' \<Rightarrow>
             (case py_setattr component' ''errors'' (PDict []) of
                Inl e \<Rightarrow> Inl e
              | Inr component'' \<Rightarrow>
                  Inr (st\<lparr>st_component := component'', st_is_reset_called := True\<rparr>)))
      else if method_name = ''$toggle'' then
        (case toggle_loop E (st_component st) (default_data (st_world st)) params of
           Inl e \<Rightarrow> Inl e
         | Inr (component', dd') \<Rightarrow>
             Inr (st\<lparr>st_component := component',
                     st_world := (st_world st)\<lparr>default_data := dd'\<rparr>\<rparr>))
      else if method_name = ''$validate'' then
        Inr (st\<lparr>st_validate_all_fields := True\<rparr>)
      else
        (case call_method E (st_component st) ''calling'' [PStr method_name, PList params] of
           Inl e \<Rightarrow> Inl e
         | Inr (c1, x) \<Rightarrow>
             (case call_method_name E c1 method_name params of
                Inl e \<Rightarrow> Inl e
              | Inr (c2, r) \<Rightarrow>
                  (case call_method E c2 ''called'' [PStr method_name, PList params] of
                     Inl e \<Rightarrow> Inl e
                   | Inr (c3, y) \<Rightarrow>
                       Inr (st\<lparr>st_component := c3,
                               st_return_data :=
                                 map_option (\<lambda>rd. set_Return_value E rd r) (st_return_data st)\<rparr>)))))"

definition apply_call_method ::
  "collab \<Rightarrow> pyval \<Rightarrow> string \<Rightarrow> pstate \<Rightarrow> dict \<Rightarrow> error + pstate" where
  "apply_call_method E component_id component_name st payload =
     (let name_expr = (case map_of payload ''name'' of None \<Rightarrow> PStr [] | Some x \<Rightarrow> x)
      in if \<not> py_truthy name_expr
         then Inl (AssertionError (''Missing '' @ [CHR 0x27] @ ''name'' @ [CHR 0x27]
                     @ '' key for callMethod''))
         else
           (case parse_call_method_name E name_expr of
              Inl e \<Rightarrow> Inl e
            | Inr (method_name, params) \<Rightarrow>
                (let st1 = st\<lparr>st_return_data := Some (new_Return E (PStr method_name) params)\<rparr>
                 in case parse_setter E name_expr of
                      Inl e \<Rightarrow> Inl e
                    | Inr [] \<Rightarrow> dispatch_method E component_id component_name st1 method_name params
                    | Inr ((property_name, property_value) # others) \<Rightarrow>
                        (case set_property_value E (st_component st1) (PStr property_name)
                                property_value (default_data (st_world st1)) of
                           Inl e \<Rightarrow> Inl e
                         | Inr (component', dd') \<Rightarrow>
                             Inr (st1\<lparr>st_component := component',
                                      st_world := (st_world st1)\<lparr>default_data := dd'\<rparr>,
                                      st_return_data :=
                                        Some (new_Return E (PStr property_name) [property_value])\<rparr>)))))"

subsection \<open>The loop over the action queue\<close>

definition unknown_action_type :: "string option \<Rightarrow> string" where
  "unknown_action_type t =
     ''Unknown action_type '' @ [CHR 0x27] @ (case t of None \<Rightarrow> ''None'' | Some s \<Rightarrow> s) @ [CHR 0x27]"

definition apply_action :: "collab \<Rightarrow> pyval \<Rightarrow> string \<Rightarrow> pstate \<Rightarrow> action \<Rightarrow> error + pstate" where
  "apply_action E component_id component_name st a =
     (if a_type a = Some ''syncInput'' then apply_sync_input E st (a_payload a)
      else if a_type a = Some ''dbInput'' then apply_db_input E component_name st (a_payload a)
      else if a_type a = Some ''callMethod''
        then apply_call_method E component_id component_name st (a_payload a)
      else Inl (UnicornViewError (unknown_action_type (a_type a))))"

fun run_actions :: "collab \<Rightarrow> pyval \<Rightarrow> string \<Rightarrow> pstate \<Rightarrow> action list \<Rightarrow> error + pstate" where
  "run_actions E component_id component_name st [] = Inr st"
| "run_actions E component_id component_name st (a # rest) =
     (case apply_action E component_id component_name st a of
        Inl e \<Rightarrow> Inl e
      | Inr st' \<Rightarrow> run_actions E component_id component_name st' rest)"


subsection \<open>Validation, rendering and the result\<close>

text \<open>
  Lines 369 to 373: the keys of the copy of the data whose value is not equal to the one
  the component now serialises to.
\<close>

fun changed_keys :: "dict \<Rightarrow> pyval \<Rightarrow> error + string list" where
  "changed_keys [] new_data = Inr []"
| "changed_keys ((key, v) # rest) new_data =
     (case new_data of
        PDict d \<Rightarrow>
          (case changed_keys rest new_data of
             Inl e \<Rightarrow> Inl e
           | Inr keys \<Rightarrow> Inr (if \<not> py_eq v (dict_get d key) then key # keys else keys))
      | _ \<Rightarrow> Inl (AttributeError ''get''))"

text \<open>Lines 365 to 375. The keyword argument \<open>model_names\<close> is passed as the one argument.\<close>

definition validate_step ::
  "collab \<Rightarrow> dict \<Rightarrow> pyval \<Rightarrow> pstate \<Rightarrow> pyval \<Rightarrow> error + pyval" where
  "validate_step E original_data new_data st component =
     (if st_is_reset_called st then Inr component
      else if st_validate_all_fields st then
        (case call_method E component ''validate'' [] of
           Inl e \<Rightarrow> Inl e
         | Inr (component', x) \<Rightarrow> Inr component')
      else
        (case changed_keys original_data new_data of
           Inl e \<Rightarrow> Inl e
         | Inr model_names_to_validate \<Rightarrow>
             (case call_method E component ''validate''
                     [PList (map PStr model_names_to_validate)] of
                Inl e \<Rightarrow> Inl e
              | Inr (component', x) \<Rightarrow> Inr component')))"

text \<open>
  Lines 386 to 399. An instance of \<open>Return\<close> is an object, hence true in a condition:
  the test \<open>if return_data\<close> fails only for \<open>None\<close>.
\<close>

definition add_optional :: "collab \<Rightarrow> pyval \<Rightarrow> string \<Rightarrow> dict \<Rightarrow> error + dict" where
  "add_optional E return_data key res =
     (case py_getattr E return_data key of
        None \<Rightarrow> Inl (AttributeError key)
      | Some x \<Rightarrow> Inr (if py_truthy x then AList.update key x res else res))"

definition add_return :: "collab \<Rightarrow> pyval option \<Rightarrow> dict \<Rightarrow> error + dict" where
  "add_return E return_data res =
     (case return_data of
        None \<Rightarrow> Inr res
      | Some rd \<Rightarrow>
          (case add_optional E rd ''redirect'' (AList.update ''return'' (Return_get_data E rd) res) of
             Inl e \<Rightarrow> Inl e
           | Inr res1 \<Rightarrow> add_optional E rd ''poll'' res1))"

text \<open>Lines 401 to 431.\<close>

definition add_parent :: "collab \<Rightarrow> pyval \<Rightarrow> dict \<Rightarrow> error + dict" where
  "add_parent E component res =
     (case py_getattr E component ''parent'' of
        None \<Rightarrow> Inl (AttributeError ''parent'')
      | Some parent_component \<Rightarrow>
          if py_truthy parent_component then
            (case call_method E parent_component ''get_frontend_context_variables'' [] of
               Inl e \<Rightarrow> Inl e
             | Inr (p1, parent_frontend_context_variables) \<Rightarrow>
                 (case call_method E p1 ''render'' [] of
                    Inl e \<Rightarrow> Inl e
                  | Inr (p2, parent_dom) \<Rightarrow>
                      (case py_getattr E p2 ''component_id'' of
                         None \<Rightarrow> Inl (AttributeError ''component_id'')
                       | Some parent_id \<Rightarrow>
                           (case loads E parent_frontend_context_variables of
                              Inl e \<Rightarrow> Inl e
                            | Inr parent_data \<Rightarrow>
                                (case py_getattr E p2 ''errors'' of
                                   None \<Rightarrow> Inl (AttributeError ''errors'')
                                 | Some parent_errors \<Rightarrow>
                                     Inr (AList.update ''parent''
                                            (PDict [(''id'', parent_id), (''dom'', parent_dom),
                                                    (''checksum'', find_checksum E parent_dom),
                                                    (''data'', parent_data),
                                                    (''errors'', parent_errors)]) res))))))
          else Inr res)"

text \<open>
  What the shallow copy \<open>original_data\<close> shows after the loop: under a key that was
  assigned anew the value recorded then, under any other key what the data holds.
\<close>

definition original_view :: "dict \<Rightarrow> pstate \<Rightarrow> dict" where
  "original_view original_data st =
     map (\<lambda>kv. (fst kv,
                case map_of (st_rebound st) (fst kv) of
                  Some recorded \<Rightarrow> recorded
                | None \<Rightarrow>
                    (case st_data st of
                       PDict d \<Rightarrow> (case map_of d (fst kv) of None \<Rightarrow> snd kv | Some x \<Rightarrow> x)
                     | _ \<Rightarrow> snd kv)))
       original_data"

text \<open>Lines 362 to 433: what follows the loop.\<close>

definition finish_request ::
  "collab \<Rightarrow> pyval \<Rightarrow> dict \<Rightarrow> pstate \<Rightarrow> error + (dict \<times> pworld)" where
  "finish_request E component_id original_data st =
     (case call_method E (st_component st) ''get_frontend_context_variables'' [] of
        Inl e \<Rightarrow> Inl e
      | Inr (c1, frontend_context_variables) \<Rightarrow>
          (case orjson_loads E frontend_context_variables of
             Inl e \<Rightarrow> Inl e
           | Inr new_data \<Rightarrow>
               (case validate_step E (original_view original_data st) new_data st c1 of
                  Inl e \<Rightarrow> Inl e
                | Inr c2 \<Rightarrow>
                    (case call_method E c2 ''render'' [] of
                       Inl e \<Rightarrow> Inl e
                     | Inr (c3, rendered_component) \<Rightarrow>
                         (case py_getattr E c3 ''errors'' of
                            None \<Rightarrow> Inl (AttributeError ''errors'')
                          | Some errors \<Rightarrow>
                              (case add_return E (st_return_data st)
                                      [(''id'', component_id), (''dom'', rendered_component),
                                       (''data'', new_data), (''errors'', errors)] of
                                 Inl e \<Rightarrow> Inl e
                               | Inr res \<Rightarrow>
                                   (case add_parent E c3 res of
                                      Inl e \<Rightarrow> Inl e
                                    | Inr res' \<Rightarrow> Inr (res', st_world st))))))))"

subsection \<open>\<open>_process_component_request\<close>\<close>

text \<open>
  Lines 222 to 238: the component is created, its properties are set from the data of
  the request (a dictionary, or \<open>copy\<close> fails; the loop over its items is
  \<open>set_fields_from_data\<close>) and \<open>hydrate\<close> is called. The result is the copy of the
  data and the state the loop over the actions starts in. The copy is shallow: what it
  shows after the loop is \<open>original_view\<close>. That the component may hold the very
  dictionaries of the data after this (as \<open>setattr\<close> and a storing \<open>_set_property\<close>
  make it) is not tracked: the model takes the values of the component as its own, so a
  write into a nested dictionary that reaches the component alone (an assignment by
  \<open>callMethod\<close>, \<open>$toggle\<close>) does not show in the copy.
\<close>

definition start_request ::
  "collab \<Rightarrow> pworld \<Rightarrow> string \<Rightarrow> component_request \<Rightarrow> error + (dict \<times> pstate)" where
  "start_request E w component_name component_request =
     (case create E (cr_id component_request) component_name None of
        Inl e \<Rightarrow> Inl e
      | Inr component \<Rightarrow>
          (case cr_data component_request of
             PDict original_data \<Rightarrow>
               (case set_fields_from_data E component original_data of
                  Inl e \<Rightarrow> Inl e
                | Inr c1 \<Rightarrow>
                    (case call_method E c1 ''hydrate'' [] of
                       Inl e \<Rightarrow> Inl e
                     | Inr (c2, x) \<Rightarrow>
                         Inr (original_data,
                              \<lparr>st_component = c2, st_data = cr_data component_request,
                               st_validate_all_fields = False, st_is_reset_called = False,
                               st_return_data = None, st_world = w, st_rebound = []\<rparr>)))
           | _ \<Rightarrow> Inl (AttributeError ''copy'')))"

definition process_component_request ::
  "collab \<Rightarrow> pworld \<Rightarrow> string \<Rightarrow> component_request \<Rightarrow> error + (dict \<times> pworld)" where
  "process_component_request E w component_name component_request =
     (case start_request E w component_name component_request of
        Inl e \<Rightarrow> Inl e
      | Inr (original_data, st0) \<Rightarrow>
          (case run_actions E (cr_id component_request) component_name st0
                  (cr_action_queue component_request) of
             Inl e \<Rightarrow> Inl e
           | Inr st \<Rightarrow> finish_request E (cr_id component_request) original_data st))"

section \<open>Request coordinator\<close>

text \<open>
  The cache maps a key to the list stored under it; entries do not expire in the model.
  What the cache returns is a copy, so a stored request changes only through
  \<open>cache.set\<close>.
\<close>

type_synonym cache = "string \<Rightarrow> component_request list option"

definition cache_key :: "collab \<Rightarrow> string \<Rightarrow> component_request \<Rightarrow> string" where
  "cache_key E component_name component_request =
     component_name @ '':'' @ py_str E (cr_id component_request)"

text \<open>
  Lines 527 to 546: the first remaining request, its action queue extended by the queues
  of the ones after it.
\<close>

fun merge_requests ::
  "component_request option \<Rightarrow> component_request list \<Rightarrow> component_request option" where
  "merge_requests merged [] = merged"
| "merge_requests merged (additional # rest) =
     merge_requests
       (case merged of
          None \<Rightarrow> Some additional
        | Some m \<Rightarrow> Some (m\<lparr>cr_action_queue := cr_action_queue m @ cr_action_queue additional\<rparr>))
       rest"

definition queued_response :: "int \<Rightarrow> int \<Rightarrow> dict" where
  "queued_response epoch original_epoch =
     [(''queued'', PBool True), (''epoch'', PInt epoch), (''original_epoch'', PInt original_epoch)]"

text \<open>\<open>json_result.get("return", {})\<close>.\<close>

definition get_return :: "dict \<Rightarrow> pyval" where
  "get_return json_result = (case map_of json_result ''return'' of None \<Rightarrow> PDict [] | Some x \<Rightarrow> x)"

text \<open>
  \<open>_handle_component_request\<close> and \<open>_handle_component_requests\<close> call each other.
  \<open>sorted\<close> is stable, as \<open>sort_key\<close> is; it sorts a copy, and \<open>pop(0)\<close> then takes
  the head of the list as the cache holds it.
\<close>

function handle_component_request ::
    "collab \<Rightarrow> cache \<Rightarrow> pworld \<Rightarrow> string \<Rightarrow> component_request
       \<Rightarrow> error + (dict \<times> cache \<times> pworld)"
  and handle_component_requests ::
    "collab \<Rightarrow> cache \<Rightarrow> pworld \<Rightarrow> string \<Rightarrow> string \<Rightarrow> error + (dict \<times> cache \<times> pworld)" where
  "handle_component_request E c w component_name component_request =
     (let component_cache_key = cache_key E component_name component_request;
          component_requests =
            (case c component_cache_key of None \<Rightarrow> [] | Some q \<Rightarrow> q) @ [component_request]
      in if length component_requests > 1
         then Inr (queued_response (cr_epoch component_request) (cr_epoch (hd component_requests)),
                   c(component_cache_key \<mapsto> component_requests), w)
         else handle_component_requests E (c(component_cache_key \<mapsto> component_requests)) w
                component_name component_cache_key)"
| "handle_component_requests E c w component_name component_cache_key =
     (case c component_cache_key of
        None \<Rightarrow> Inl (TypeError ''object is not iterable'')
      | Some stored \<Rightarrow>
          (case sort_key cr_epoch stored of
             [] \<Rightarrow> Inl IndexError
           | first_component_request # later \<Rightarrow>
               (case process_component_request E w component_name first_component_request of
                  Inl e \<Rightarrow> Inl e
                | Inr (json_result, w1) \<Rightarrow>
                    (case stored of
                       [] \<Rightarrow> Inl IndexError
                     | popped # remaining \<Rightarrow>
                         if remaining \<noteq> [] then
                           (case merge_requests None remaining of
                              None \<Rightarrow> Inl (AttributeError ''id'')
                            | Some merged_component_request \<Rightarrow>
                                (case handle_component_request E (c(component_cache_key \<mapsto> [])) w1
                                        component_name merged_component_request of
                                   Inl e \<Rightarrow> Inl e
                                 | Inr (new_json_result, c2, w2) \<Rightarrow>
                                     Inr (AList.update ''return''
                                            (PList [get_return json_result,
                                                    get_return new_json_result])
                                            new_json_result, c2, w2)))
                         else Inr (json_result, c(component_cache_key \<mapsto> remaining), w1)))))"
  by pat_completeness auto
termination handle_component_request
  by (relation "measure
        (\<lambda>x. case x of
               Inl (E, c, w, component_name, r) \<Rightarrow> 1
             | Inr (E, c, w, component_name, k) \<Rightarrow>
                 (case c k of None \<Rightarrow> 0 | Some q \<Rightarrow> if length q > 1 then 2 else 0))")
     (auto split: option.splits)

section \<open>The endpoint \<open>message\<close>\<close>

text \<open>
  \<open>handle_error\<close> turns a \<open>UnicornViewError\<close> and an \<open>AssertionError\<close> into the
  response \<open>{"error": str(e)}\<close>; any other exception leaves the view. The state a failed
  request leaves behind is not part of the outcome.
\<close>

datatype outcome =
    JsonResponse dict cache pworld
  | ErrorResponse dict
  | Raised error

definition handle_error :: "error + (dict \<times> cache \<times> pworld) \<Rightarrow> outcome" where
  "handle_error r =
     (case r of
        Inr (json_result, c, w) \<Rightarrow> JsonResponse json_result c w
      | Inl (UnicornViewError msg) \<Rightarrow> ErrorResponse [(''error'', PStr msg)]
      | Inl (AssertionError msg) \<Rightarrow> ErrorResponse [(''error'', PStr msg)]
      | Inl e \<Rightarrow> Raised e)"

text \<open>
  The request body arrives decoded as a \<open>component_request\<close>; the component name of the
  URL may be missing or empty. The decorators \<open>csrf_protect\<close> and \<open>require_POST\<close>
  act before the view and are not part of the model.
\<close>

definition message ::
  "collab \<Rightarrow> cache \<Rightarrow> pworld \<Rightarrow> string option \<Rightarrow> component_request \<Rightarrow> outcome" where
  "message E c w component_name component_request =
     handle_error
       (case component_name of
          None \<Rightarrow> Inl (AssertionError ''Missing component name in url'')
        | Some n \<Rightarrow>
            if n = [] then Inl (AssertionError ''Missing component name in url'')
            else handle_component_request E c w n component_request)"


section \<open>A sample component\<close>

text \<open>
  Collaborators for the examples: a component class \<open>hello\<close> with a property
  \<open>name\<close>, a nested field \<open>author\<close>, a dictionary \<open>flavors\<close>, two methods
  \<open>first\<close> and \<open>second\<close> that return their own name, and the hooks of the base
  class, which do nothing. Its \<open>_set_property\<close> stores the value, its \<open>validate\<close>
  reports on \<open>name\<close>, and its serialised state is the dictionary of \<open>name\<close>.
\<close>

definition hello_component :: pyval where
  "hello_component =
     PObj OtherK
       [(''name'', PStr ''World''),
        (''author'', PObj UnicornFieldK [(''name'', PStr ''Neil'')]),
        (''flavors'', PDict [(''vanilla'', PInt 1)]),
        (''books'', PObj OtherK [(''model'', POpaque ''Book'')]),
        (''errors'', PDict []),
        (''parent'', PNone),
        (''_set_property'', POpaque ''method''),
        (''updating'', POpaque ''method''),
        (''updated'', POpaque ''method''),
        (''calling'', POpaque ''method''),
        (''called'', POpaque ''method''),
        (''hydrate'', POpaque ''method''),
        (''validate'', POpaque ''method''),
        (''render'', POpaque ''method''),
        (''get_frontend_context_variables'', POpaque ''method''),
        (''first'', POpaque ''method''),
        (''second'', POpaque ''method'')]"

definition hello_invoke :: "pyval \<Rightarrow> string \<Rightarrow> pyval list \<Rightarrow> error + (pyval \<times> pyval)" where
  "hello_invoke obj n args =
     (if n = ''_set_property'' then
        (case args of
           [PStr p, v] \<Rightarrow> Inr (put_attr p v obj, PNone)
         | _ \<Rightarrow> Inl (TypeError ''_set_property''))
      else if n = ''validate'' then
        Inr (put_attr ''errors'' (PDict [(''name'', PList [PStr ''required''])]) obj, PNone)
      else if n = ''render'' then Inr (obj, PStr ''<div></div>'')
      else if n = ''get_frontend_context_variables'' then
        Inr (obj, PDict (case obj of
                           PObj k as \<Rightarrow> (case map_of as ''name'' of
                                          None \<Rightarrow> []
                                        | Some v \<Rightarrow> [(''name'', v)])
                         | _ \<Rightarrow> []))
      else if n = ''first'' \<or> n = ''second'' then Inr (obj, PStr n)
      else Inr (obj, PNone))"

definition hello_Return :: "pyval \<Rightarrow> pyval list \<Rightarrow> pyval" where
  "hello_Return method_name params =
     PObj OtherK
       [(''method_name'', method_name), (''params'', PList params), (''value'', PNone),
        (''redirect'', PDict []), (''poll'', PDict [])]"

definition hello_collab :: collab where
  "hello_collab =
     \<lparr>builtin_has =
        (\<lambda>t n. t = TDict \<and>
           n \<in> set [''clear'', ''copy'', ''fromkeys'', ''get'', ''items'', ''keys'', ''pop'',
                     ''popitem'', ''setdefault'', ''update'', ''values'']),
      invoke = hello_invoke,
      create = (\<lambda>component_id component_name use_cache. Inr hello_component),
      orjson_loads = Inr,
      loads = Inr,
      parse_call_method_name =
        (\<lambda>x. case x of
               PStr s \<Rightarrow> Inr (takeWhile (\<lambda>c. c \<noteq> CHR ''('') s, [])
             | _ \<Rightarrow> Inl (TypeError ''parse'')),
      parse_kwarg = (\<lambda>x. Inl InvalidKwarg),
      new_Return = hello_Return,
      set_Return_value = (\<lambda>rd v. put_attr ''value'' v rd),
      Return_get_data =
        (\<lambda>rd. case rd of
                PObj k as \<Rightarrow> PDict [(''method'', dict_get as ''method_name''),
                                    (''params'', dict_get as ''params''),
                                    (''value'', dict_get as ''value'')]
              | _ \<Rightarrow> PDict []),
      issubclass_Model = (\<lambda>x. case x of POpaque c \<Rightarrow> Some (c = ''Book'') | _ \<Rightarrow> None),
      find_checksum = (\<lambda>markup. PNone),
      py_str = (\<lambda>x. case x of PStr s \<Rightarrow> s | _ \<Rightarrow> ''None'')\<rparr>"

definition hello_world :: pworld where
  "hello_world =
     \<lparr>Meta = (\<lambda>component_name.
               Some (Some [\<lparr>dm_name = PStr ''book'', dm_model_class = POpaque ''Book'',
                            dm_defaults = 0\<rparr>])),
      heap = (\<lambda>a. [(''type'', PStr ''paperback'')]),
      default_data = PDict [],
      db_calls = []\<rparr>"

text \<open>The value an action leaves in the result, if there is a result.\<close>

definition result_field :: "string \<Rightarrow> error + (dict \<times> 'a) \<Rightarrow> pyval option" where
  "result_field key r = (case r of Inl e \<Rightarrow> None | Inr (res, rest) \<Rightarrow> map_of res key)"


text \<open>Two requests for the same component instance, with epochs 1 and 2.\<close>

definition first_request :: component_request where
  "first_request =
     \<lparr>cr_id = PStr ''abc'', cr_data = PDict [(''name'', PStr ''World'')],
      cr_action_queue = [\<lparr>a_type = Some ''callMethod'', a_payload = [(''name'', PStr ''first'')]\<rparr>],
      cr_epoch = 1\<rparr>"

definition second_request :: component_request where
  "second_request =
     \<lparr>cr_id = PStr ''abc'', cr_data = PDict [(''name'', PStr ''World'')],
      cr_action_queue = [\<lparr>a_type = Some ''callMethod'', a_payload = [(''name'', PStr ''second'')]\<rparr>],
      cr_epoch = 2\<rparr>"

section \<open>Predicates of the statements\<close>

text \<open>
  Where the loop of \<open>_get_property_value\<close> stands after the given segments, none of
  them the last of the path: the node reached, or the \<open>KeyError\<close> of a dictionary
  that lacks one of them.
\<close>

fun get_descend :: "collab \<Rightarrow> pyval \<Rightarrow> string list \<Rightarrow> error + pyval" where
  "get_descend E cur [] = Inr cur"
| "get_descend E cur (p # ps) =
     (case py_getattr E cur p of
        Some x \<Rightarrow> get_descend E x ps
      | None \<Rightarrow>
          (case cur of
             PDict d \<Rightarrow>
               (case map_of d p of
                  None \<Rightarrow> Inl (KeyError p)
                | Some x \<Rightarrow> get_descend E x ps)
           | _ \<Rightarrow> get_descend E cur ps))"

text \<open>
  The state of the loop on the sample component before any action, and a \<open>dbInput\<close>
  payload that names the field \<open>books\<close> and carries the given fields.
\<close>

definition hello_state :: pstate where
  "hello_state =
     \<lparr>st_component = hello_component, st_data = PDict [(''name'', PStr ''World'')],
      st_validate_all_fields = False, st_is_reset_called = False,
      st_return_data = None, st_world = hello_world, st_rebound = []\<rparr>"

definition books_payload :: "dict \<Rightarrow> dict" where
  "books_payload f = [(''model'', PStr ''books''), (''db'', PDict [(''pk'', PInt 7)]), (''fields'', PDict f)]"

text \<open>A request whose only action carries the tag \<open>bogus\<close>.\<close>

definition bogus_request :: component_request where
  "bogus_request =
     \<lparr>cr_id = PStr ''abc'', cr_data = PDict [(''name'', PStr ''World'')],
      cr_action_queue = [\<lparr>a_type = Some ''bogus'', a_payload = []\<rparr>],
      cr_epoch = 1\<rparr>"

text \<open>A request with two method calls and a property update after them.\<close>

definition three_request :: component_request where
  "three_request =
     \<lparr>cr_id = PStr ''abc'', cr_data = PDict [(''name'', PStr ''World'')],
      cr_action_queue =
        [\<lparr>a_type = Some ''callMethod'', a_payload = [(''name'', PStr ''first'')]\<rparr>,
         \<lparr>a_type = Some ''callMethod'', a_payload = [(''name'', PStr ''second'')]\<rparr>,
         \<lparr>a_type = Some ''syncInput'', a_payload = [(''name'', PStr ''name''), (''value'', PStr ''Jo'')]\<rparr>],
      cr_epoch = 1\<rparr>"

text \<open>
  An action is a call of \<open>$reset\<close> when it is a \<open>callMethod\<close> whose name parses to the
  method \<open>$reset\<close> and not to a property assignment.
\<close>

definition is_reset_call :: "collab \<Rightarrow> action \<Rightarrow> bool" where
  "is_reset_call E a =
     (a_type a = Some ''callMethod''
      \<and> (case map_of (a_payload a) ''name'' of
            None \<Rightarrow> False
          | Some name_expr \<Rightarrow>
              py_truthy name_expr
              \<and> (case parse_call_method_name E name_expr of
                    Inl e \<Rightarrow> False
                  | Inr (method_name, params) \<Rightarrow> method_name = ''$reset'')
              \<and> parse_setter E name_expr = Inr []))"

text \<open>
  Serialising and rendering do not change the component: the contract of the collaborators
  \<open>get_frontend_context_variables\<close> and \<open>render\<close> that the result relies on.
\<close>

definition inert_observers :: "collab \<Rightarrow> bool" where
  "inert_observers E =
     (\<forall>obj. (\<exists>x. invoke E obj ''get_frontend_context_variables'' [] = Inr (obj, x))
          \<and> (\<exists>x. invoke E obj ''render'' [] = Inr (obj, x)))"

text \<open>A request that sets \<open>name\<close>, calls \<open>$reset\<close> and goes on with the given actions.\<close>

definition reset_request :: "action list \<Rightarrow> component_request" where
  "reset_request later =
     \<lparr>cr_id = PStr ''abc'', cr_data = PDict [(''name'', PStr ''World'')],
      cr_action_queue =
        \<lparr>a_type = Some ''syncInput'', a_payload = [(''name'', PStr ''name''), (''value'', PStr ''Jo'')]\<rparr>
        # \<lparr>a_type = Some ''callMethod'', a_payload = [(''name'', PStr ''$reset'')]\<rparr> # later,
      cr_epoch = 1\<rparr>"






section \<open>The queued acknowledgment\<close>

lemma hello_key: "cache_key hello_collab ''hello'' r = ''hello:'' @ (case cr_id r of PStr s \<Rightarrow> s | _ \<Rightarrow> ''None'')"
  by (simp add: cache_key_def hello_collab_def)

text \<open>
  C5. A request that is not alone in the stored queue once it has been appended is not
  processed: \<open>_handle_component_request\<close> returns the acknowledgment with the epoch
  of the request and, as \<open>original_epoch\<close>, the epoch of the first request of the stored
  queue. The state the dispatcher works on is returned as it was, whatever the
  collaborators are, and the cache holds the queue with the request appended.
\<close>

theorem queued_when_not_sole_occupant:
  assumes "stored = (case c (cache_key E component_name r) of None \<Rightarrow> [] | Some q \<Rightarrow> q)"
    and "length (stored @ [r]) > 1"
  shows "handle_component_request E c w component_name r =
           Inr (queued_response (cr_epoch r) (cr_epoch (hd (stored @ [r]))),
                c(cache_key E component_name r \<mapsto> stored @ [r]), w)"
  using assms by (cases stored) (simp_all add: Let_def)

theorem queued_when_not_sole_occupant_witness:
  "handle_component_request hello_collab (Map.empty(''hello:abc'' \<mapsto> [first_request]))
       hello_world ''hello'' second_request
     = Inr ([(''queued'', PBool True), (''epoch'', PInt 2), (''original_epoch'', PInt 1)],
            Map.empty(''hello:abc'' \<mapsto> [first_request, second_request]), hello_world)"
  using queued_when_not_sole_occupant
          [of "[first_request]" "Map.empty(''hello:abc'' \<mapsto> [first_request])" hello_collab
              "''hello''" second_request hello_world]
  by (simp add: hello_key queued_response_def) (simp add: first_request_def second_request_def)


section \<open>The drain of a queue that arrived out of order\<close>

text \<open>
  C1. The request with epoch 2 arrived first and the one with epoch 1 after it, so the
  cache holds them in that order when \<open>_handle_component_requests\<close> starts. The sorted
  copy puts epoch 1 first and that request is processed, but \<open>pop(0)\<close> works on the
  list as the cache holds it and removes the request with epoch 2. The request with
  epoch 1 is what remains, is submitted again and processed a second time: the result
  carries the return value of epoch 1 twice, and the method \<open>second\<close> of the request
  with epoch 2 is never called.
\<close>

theorem drain_out_of_order_drops_later_epoch:
  "result_field ''return''
     (handle_component_requests hello_collab
        (Map.empty(''hello:abc'' \<mapsto> [second_request, first_request]))
        hello_world ''hello'' ''hello:abc'')
   = Some (PList [PDict [(''method'', PStr ''first''), (''params'', PList []),
                         (''value'', PStr ''first'')],
                  PDict [(''method'', PStr ''first''), (''params'', PList []),
                         (''value'', PStr ''first'')]])"
  by code_simp

section \<open>Reading a path that does not resolve\<close>

lemma get_loop_descend:
  "rest \<noteq> [] \<Longrightarrow>
   get_loop E cur (pre @ rest) =
     (case get_descend E cur pre of Inl e \<Rightarrow> Inl e | Inr cur' \<Rightarrow> get_loop E cur' rest)"
proof (induction pre arbitrary: cur)
  case Nil
  then show ?case by simp
next
  case (Cons p pre)
  then show ?case
    by (cases cur) (simp_all split: option.splits)
qed

lemma get_loop_raises_at:
  "get_loop E cur parts = Inl e \<Longrightarrow>
     \<exists>pre s rest d. parts = pre @ s # rest \<and> get_descend E cur pre = Inr (PDict d)
        \<and> py_getattr E (PDict d) s = None \<and> map_of d s = None \<and> e = KeyError s"
proof (induction parts arbitrary: cur)
  case Nil
  then show ?case by simp
next
  case (Cons p ps)
  show ?case
  proof (cases "py_getattr E cur p")
    case (Some x)
    with Cons.prems have "get_loop E x ps = Inl e" by (auto split: if_splits)
    from Cons.IH [OF this] obtain pre s rest d where
      "ps = pre @ s # rest" "get_descend E x pre = Inr (PDict d)"
      "py_getattr E (PDict d) s = None" "map_of d s = None" "e = KeyError s" by blast
    with Some have "p # ps = (p # pre) @ s # rest \<and> get_descend E cur (p # pre) = Inr (PDict d)
        \<and> py_getattr E (PDict d) s = None \<and> map_of d s = None \<and> e = KeyError s" by simp
    then show ?thesis by blast
  next
    case None
    note na = None
    show ?thesis
    proof (cases "is_dict cur")
      case True
      then obtain d where d: "cur = PDict d" by (cases cur) auto
      show ?thesis
      proof (cases "map_of d p")
        case None
        with Cons.prems na d have "e = KeyError p" by simp
        with na d None have "p # ps = [] @ p # ps \<and> get_descend E cur [] = Inr (PDict d)
          \<and> py_getattr E (PDict d) p = None \<and> map_of d p = None \<and> e = KeyError p" by simp
        then show ?thesis by blast
      next
        case (Some x)
        with Cons.prems na d have "get_loop E x ps = Inl e" by (auto split: if_splits)
        from Cons.IH [OF this] obtain pre s rest d' where
          "ps = pre @ s # rest" "get_descend E x pre = Inr (PDict d')"
          "py_getattr E (PDict d') s = None" "map_of d' s = None" "e = KeyError s" by blast
        with Some na d have "p # ps = (p # pre) @ s # rest \<and> get_descend E cur (p # pre) = Inr (PDict d')
          \<and> py_getattr E (PDict d') s = None \<and> map_of d' s = None \<and> e = KeyError s" by simp
        then show ?thesis by blast
      qed
    next
      case False
      with Cons.prems na have "get_loop E cur ps = Inl e" by (cases cur) simp_all
      from Cons.IH [OF this] obtain pre s rest d where
        "ps = pre @ s # rest" "get_descend E cur pre = Inr (PDict d)"
        "py_getattr E (PDict d) s = None" "map_of d s = None" "e = KeyError s" by blast
      with False na have "p # ps = (p # pre) @ s # rest \<and> get_descend E cur (p # pre) = Inr (PDict d)
          \<and> py_getattr E (PDict d) s = None \<and> map_of d s = None \<and> e = KeyError s"
        by (cases cur) simp_all
      then show ?thesis by blast
    qed
  qed
qed

lemma get_loop_at:
  "get_descend E cur pre = Inr node \<Longrightarrow> get_loop E cur (pre @ s # rest) = get_loop E node (s # rest)"
  using get_loop_descend [of "s # rest" E cur pre] by simp

text \<open>
  C2, as the code has it. On the sample component the path \<open>flavors.chocolate\<close>
  reaches the dictionary \<open>flavors\<close>, which has no key \<open>chocolate\<close>: the subscript
  raises \<open>KeyError\<close>, so the claim that a key missing from a keyed container yields
  absent does not hold.
\<close>

theorem get_missing_key_raises:
  "get_property_value hello_collab hello_component (PStr ''flavors.chocolate'')
     = Inl (KeyError ''chocolate'')"
  by code_simp

text \<open>
  C2, amended. Reading a dot path follows the traversal segment by segment. At the node
  the loop stands at when it comes to a segment:
  \<^item> if the node is a dictionary that has the segment neither as attribute nor as key,
    the read raises \<open>KeyError\<close> for that segment;
  \<^item> if the node is no dictionary and has no such attribute, the segment is passed over:
    the read is the read of the remaining segments from the same node, and \<open>None\<close> when
    the segment was the last;
  \<^item> if the segment is the last and the node has it as attribute, or is a dictionary with
    that key, the read returns that value.

  And every exception of a read is such a \<open>KeyError\<close>.
\<close>

theorem get_follows_the_traversal:
  assumes "split_dot p = pre @ s # rest" and "get_descend E c pre = Inr node"
  shows "(py_getattr E node s = None \<and> node = PDict d \<and> map_of d s = None
            \<longrightarrow> get_property_value E c (PStr p) = Inl (KeyError s))
       \<and> (py_getattr E node s = None \<and> \<not> is_dict node
            \<longrightarrow> get_property_value E c (PStr p) = get_loop E node rest
              \<and> (rest = [] \<longrightarrow> get_property_value E c (PStr p) = Inr PNone))
       \<and> (rest = [] \<and> py_getattr E node s = Some x
            \<longrightarrow> get_property_value E c (PStr p) = Inr x)
       \<and> (rest = [] \<and> py_getattr E node s = None \<and> node = PDict d \<and> map_of d s = Some x
            \<longrightarrow> get_property_value E c (PStr p) = Inr x)
       \<and> (\<forall>e. get_property_value E c (PStr p) = Inl e \<longrightarrow>
             (\<exists>pre' s' rest' d'. split_dot p = pre' @ s' # rest'
                \<and> get_descend E c pre' = Inr (PDict d')
                \<and> py_getattr E (PDict d') s' = None \<and> map_of d' s' = None \<and> e = KeyError s'))"
proof -
  have g: "get_property_value E c (PStr p) = get_loop E node (s # rest)"
    using assms get_loop_at by (simp add: get_property_value_def)
  have r: "get_property_value E c (PStr p) = Inl e \<Longrightarrow>
             (\<exists>pre' s' rest' d'. split_dot p = pre' @ s' # rest'
                \<and> get_descend E c pre' = Inr (PDict d')
                \<and> py_getattr E (PDict d') s' = None \<and> map_of d' s' = None \<and> e = KeyError s')" for e
    using get_loop_raises_at [of E c "split_dot p" e] by (simp add: get_property_value_def)
  have n: "get_loop E node (s # rest) = get_loop E node rest"
    if "py_getattr E node s = None" "\<not> is_dict node"
    using that by (cases node) simp_all
  show ?thesis
    using g r n by auto
qed


theorem get_follows_the_traversal_witness:
  "get_property_value hello_collab hello_component (PStr ''missing.name'') = Inr (PStr ''World'')
   \<and> get_property_value hello_collab hello_component (PStr ''author.title'') = Inr PNone
   \<and> get_property_value hello_collab hello_component (PStr ''flavors.vanilla'') = Inr (PInt 1)"
proof -
  have s1: "split_dot ''missing.name'' = [] @ ''missing'' # [''name'']" by code_simp
  have d1: "get_descend hello_collab hello_component [] = Inr hello_component" by simp
  have n1: "py_getattr hello_collab hello_component ''missing'' = None \<and> \<not> is_dict hello_component"
    by code_simp
  have g1: "get_loop hello_collab hello_component [''name''] = Inr (PStr ''World'')" by code_simp
  have s2: "split_dot ''author.title'' = [''author''] @ ''title'' # []" by code_simp
  have d2: "get_descend hello_collab hello_component [''author'']
              = Inr (PObj UnicornFieldK [(''name'', PStr ''Neil'')])" by code_simp
  have n2: "py_getattr hello_collab (PObj UnicornFieldK [(''name'', PStr ''Neil'')]) ''title'' = None
            \<and> \<not> is_dict (PObj UnicornFieldK [(''name'', PStr ''Neil'')])"
    by code_simp
  have s3: "split_dot ''flavors.vanilla'' = [''flavors''] @ ''vanilla'' # []" by code_simp
  have d3: "get_descend hello_collab hello_component [''flavors''] = Inr (PDict [(''vanilla'', PInt 1)])"
    by code_simp
  have n3: "py_getattr hello_collab (PDict [(''vanilla'', PInt 1)]) ''vanilla'' = None
            \<and> map_of [(''vanilla'', PInt 1)] ''vanilla'' = Some (PInt 1)"
    by code_simp
  from get_follows_the_traversal [OF s1 d1] n1 g1
  have "get_property_value hello_collab hello_component (PStr ''missing.name'') = Inr (PStr ''World'')"
    by simp
  moreover from get_follows_the_traversal [OF s2 d2] n2
  have "get_property_value hello_collab hello_component (PStr ''author.title'') = Inr PNone"
    by simp
  moreover from get_follows_the_traversal [OF s3 d3, of "[(''vanilla'', PInt 1)]" "PInt 1"] n3
  have "get_property_value hello_collab hello_component (PStr ''flavors.vanilla'') = Inr (PInt 1)"
    by simp
  ultimately show ?thesis by simp
qed

section \<open>Record mutations\<close>

text \<open>
  C9. A \<open>dbInput\<close> action whose record type resolves to a subclass of \<open>Model\<close> and
  whose \<open>fields\<close> are empty (or missing) raises nothing and leaves the state as it
  is, the calls to the persisted-record store and the defaults included; the loop goes on
  with the next action.
\<close>

theorem db_input_without_fields_is_noop:
  assumes "(case map_of payload ''db'' of None \<Rightarrow> PDict [] | Some x \<Rightarrow> x) = PDict dbd"
    and "resolve_by_model E (st_world st) n (st_component st) (dict_get payload ''model'') = Inr found"
    and "resolve_by_name (st_world st) n (dict_get dbd ''name'') found = Inr (db_model, db_defaults)"
    and "py_truthy db_model"
    and "issubclass_Model E db_model = Some True"
    and "\<not> py_truthy (case map_of payload ''fields'' of None \<Rightarrow> PDict [] | Some x \<Rightarrow> x)"
  shows "apply_db_input E n st payload = Inr st
         \<and> run_actions E cid n st (\<lparr>a_type = Some ''dbInput'', a_payload = payload\<rparr> # rest)
             = run_actions E cid n st rest"
proof -
  have "apply_db_input E n st payload = Inr st"
    using assms by (simp add: apply_db_input_def Let_def write_fields_def)
  then show ?thesis by (simp add: apply_action_def)
qed

theorem db_input_without_fields_is_noop_witness:
  "apply_db_input hello_collab ''hello'' hello_state (books_payload []) = Inr hello_state"
proof -
  have h1: "(case map_of (books_payload []) ''db'' of None \<Rightarrow> PDict [] | Some x \<Rightarrow> x) = PDict [(''pk'', PInt 7)]"
    by code_simp
  have h2: "resolve_by_model hello_collab (st_world hello_state) ''hello'' (st_component hello_state)
              (dict_get (books_payload []) ''model'') = Inr (POpaque ''Book'', Some 0)"
    by code_simp
  have h3: "resolve_by_name (st_world hello_state) ''hello'' (dict_get [(''pk'', PInt 7)] ''name'')
              (POpaque ''Book'', Some 0) = Inr (POpaque ''Book'', Some 0)"
    by code_simp
  have h4: "py_truthy (POpaque ''Book'')" by simp
  have h5: "issubclass_Model hello_collab (POpaque ''Book'') = Some True" by code_simp
  have h6: "\<not> py_truthy (case map_of (books_payload []) ''fields'' of None \<Rightarrow> PDict [] | Some x \<Rightarrow> x)"
    by code_simp
  from db_input_without_fields_is_noop [OF h1 h2 h3 h4 h5 h6] show ?thesis by (rule conjunct1)
qed

lemma map_of_dict_update_at:
  "map_of (dict_update d f) k = (map_of d ++ map_of (rev f)) k"
proof (induction f arbitrary: d)
  case Nil
  then show ?case by (simp add: dict_update_def)
next
  case (Cons x f)
  have "dict_update d (x # f) = dict_update (AList.update (fst x) (snd x) d) f"
    by (simp add: dict_update_def)
  then show ?case
    by (simp add: Cons.IH update_conv map_add_def split: option.splits)
qed

lemma map_of_dict_update: "map_of (dict_update d f) = map_of d ++ map_of (rev f)"
  by (rule ext) (rule map_of_dict_update_at)

lemma resolve_by_model_Meta:
  "Meta w' = Meta w \<Longrightarrow> resolve_by_model E w' n c m = resolve_by_model E w n c m"
  by (simp add: resolve_by_model_def split: pyval.splits option.splits)

lemma resolve_by_name_Meta:
  "Meta w' = Meta w \<Longrightarrow> resolve_by_name w' n nm found = resolve_by_name w n nm found"
  by (simp add: resolve_by_name_def split: option.splits)

text \<open>
  C8. When the record type of a \<open>dbInput\<close> action resolves together with the defaults
  of a \<open>db_models\<close> entry and the \<open>fields\<close> are not empty, the dictionary of that
  entry is the one updated: after the action it holds the supplied values over the old
  defaults, and a later action that resolves the same way finds that dictionary.
\<close>

theorem db_input_updates_defaults_in_place:
  assumes "(case map_of payload ''db'' of None \<Rightarrow> PDict [] | Some x \<Rightarrow> x) = PDict dbd"
    and "resolve_by_model E (st_world st) n (st_component st) (dict_get payload ''model'') = Inr found"
    and "resolve_by_name (st_world st) n (dict_get dbd ''name'') found = Inr (db_model, Some a)"
    and "map_of payload ''fields'' = Some (PDict f)" and "f \<noteq> []"
    and "apply_db_input E n st payload = Inr st'"
  shows "heap (st_world st') a = dict_update (heap (st_world st) a) f
         \<and> map_of (heap (st_world st') a) = map_of (heap (st_world st) a) ++ map_of (rev f)
         \<and> resolve_by_model E (st_world st') n (st_component st') (dict_get payload ''model'') = Inr found
         \<and> resolve_by_name (st_world st') n (dict_get dbd ''name'') found = Inr (db_model, Some a)"
proof -
  from assms have st': "st' = st\<lparr>st_world := (st_world st)\<lparr>heap := (heap (st_world st))(a := dict_update (heap (st_world st) a) f),
        db_calls := db_calls (st_world st) @ [if py_truthy (dict_get dbd ''pk'') then DbUpdate db_model (dict_get dbd ''pk'') (dict_update (heap (st_world st) a) f)
                         else DbCreate db_model (dict_update (heap (st_world st) a) f)]\<rparr>\<rparr>"
    by (auto simp: apply_db_input_def Let_def write_fields_def update_argument_def
          split: if_splits option.splits bool.splits)
  have m: "Meta (st_world st') = Meta (st_world st)" and c: "st_component st' = st_component st"
    and h: "heap (st_world st') a = dict_update (heap (st_world st) a) f"
    unfolding st' by simp_all
  show ?thesis
    using assms(2,3) by (simp add: h c map_of_dict_update resolve_by_model_Meta [OF m] resolve_by_name_Meta [OF m])
qed

theorem db_input_updates_defaults_in_place_witness:
  "heap (st_world (projr (apply_db_input hello_collab ''hello'' hello_state
      (books_payload [(''title'', PStr ''Emma'')])))) 0
     = [(''type'', PStr ''paperback''), (''title'', PStr ''Emma'')]"
proof -
  let ?p = "books_payload [(''title'', PStr ''Emma'')]"
  have h1: "(case map_of ?p ''db'' of None \<Rightarrow> PDict [] | Some x \<Rightarrow> x) = PDict [(''pk'', PInt 7)]"
    by code_simp
  have h2: "resolve_by_model hello_collab (st_world hello_state) ''hello'' (st_component hello_state)
              (dict_get ?p ''model'') = Inr (POpaque ''Book'', Some 0)"
    by code_simp
  have h3: "resolve_by_name (st_world hello_state) ''hello'' (dict_get [(''pk'', PInt 7)] ''name'')
              (POpaque ''Book'', Some 0) = Inr (POpaque ''Book'', Some 0)"
    by code_simp
  have h4: "map_of ?p ''fields'' = Some (PDict [(''title'', PStr ''Emma'')])" by code_simp
  have h5: "[(''title'', PStr ''Emma'')] \<noteq> []" by simp
  have "case apply_db_input hello_collab ''hello'' hello_state ?p of Inl e \<Rightarrow> False | Inr s \<Rightarrow> True"
    by code_simp
  then obtain st' where h6: "apply_db_input hello_collab ''hello'' hello_state ?p = Inr st'"
    by (cases "apply_db_input hello_collab ''hello'' hello_state ?p") simp_all
  have "heap (st_world st') 0 = dict_update (heap (st_world hello_state) 0) [(''title'', PStr ''Emma'')]"
    using db_input_updates_defaults_in_place [OF h1 h2 h3 h4 h5 h6] by (rule conjunct1)
  then have "heap (st_world st') 0 = [(''type'', PStr ''paperback''), (''title'', PStr ''Emma'')]"
    by (simp add: dict_update_def hello_state_def hello_world_def)
  with h6 show ?thesis by simp
qed

section \<open>Unknown action types\<close>

lemma run_actions_append:
  "run_actions E cid n st (xs @ ys) =
     (case run_actions E cid n st xs of Inl e \<Rightarrow> Inl e | Inr st' \<Rightarrow> run_actions E cid n st' ys)"
  by (induction xs arbitrary: st) (auto split: sum.splits)

lemma hello_start:
  "start_request hello_collab hello_world ''hello'' bogus_request
     = Inr ([(''name'', PStr ''World'')], hello_state)"
  by (simp add: start_request_def hello_collab_def bogus_request_def hello_state_def
        hello_component_def py_getattr_def py_hasattr_def call_method_def hello_invoke_def)

text \<open>
  C6. A request that is alone in its queue is processed; when the loop reaches an action
  whose tag is none of \<open>syncInput\<close>, \<open>dbInput\<close>, \<open>callMethod\<close> (the actions before
  it having raised nothing), \<open>UnicornViewError\<close> is raised there and the endpoint
  answers \<open>{"error": "Unknown action_type '<tag>'"}\<close>; a missing tag reads \<open>None\<close>.
  No result dictionary is produced.
\<close>

theorem unknown_action_type_is_error_response:
  assumes "n \<noteq> []"
    and "(case c (cache_key E n r) of None \<Rightarrow> [] | Some q \<Rightarrow> q) = []"
    and "start_request E w n r = Inr (od, st0)"
    and "cr_action_queue r = pre @ a # post"
    and "run_actions E (cr_id r) n st0 pre = Inr st1"
    and "a_type a \<noteq> Some ''syncInput''" and "a_type a \<noteq> Some ''dbInput''"
    and "a_type a \<noteq> Some ''callMethod''"
  shows "message E c w (Some n) r =
           ErrorResponse [(''error'', PStr (''Unknown action_type '' @ [CHR 0x27]
               @ (case a_type a of None \<Rightarrow> ''None'' | Some t \<Rightarrow> t) @ [CHR 0x27]))]"
proof -
  have "run_actions E (cr_id r) n st0 (cr_action_queue r)
          = Inl (UnicornViewError (unknown_action_type (a_type a)))"
    using assms(4-8) by (simp add: run_actions_append apply_action_def)
  then have p: "process_component_request E w n r
          = Inl (UnicornViewError (unknown_action_type (a_type a)))"
    using assms(3) by (simp add: process_component_request_def)
  have "handle_component_request E c w n r = Inl (UnicornViewError (unknown_action_type (a_type a)))"
    using assms(2) p by (simp add: Let_def)
  then show ?thesis
    using assms(1) by (simp add: message_def handle_error_def unknown_action_type_def)
qed

theorem unknown_action_type_is_error_response_witness:
  "message hello_collab Map.empty hello_world (Some ''hello'') bogus_request
     = ErrorResponse [(''error'', PStr (''Unknown action_type '' @ [CHR 0x27] @ ''bogus'' @ [CHR 0x27]))]"
proof -
  have h2: "(case Map.empty (cache_key hello_collab ''hello'' bogus_request) of None \<Rightarrow> [] | Some q \<Rightarrow> q) = []"
    by simp
  have h4: "cr_action_queue bogus_request = [] @ \<lparr>a_type = Some ''bogus'', a_payload = []\<rparr> # []"
    by (simp add: bogus_request_def)
  have h5: "run_actions hello_collab (cr_id bogus_request) ''hello'' hello_state [] = Inr hello_state"
    by simp
  from unknown_action_type_is_error_response [OF _ h2 hello_start h4 h5]
  show ?thesis by simp
qed

section \<open>The return value of a request\<close>

lemma sync_input_keeps_return:
  "apply_sync_input E st p = Inr st' \<Longrightarrow> st_return_data st' = st_return_data st \<and> st_is_reset_called st' = st_is_reset_called st"
  by (auto simp: apply_sync_input_def split: sum.splits)

lemma db_input_keeps_return:
  "apply_db_input E n st p = Inr st' \<Longrightarrow> st_return_data st' = st_return_data st \<and> st_is_reset_called st' = st_is_reset_called st"
  by (auto simp: apply_db_input_def Let_def split: sum.splits pyval.splits if_splits option.splits bool.splits)

lemma other_action_keeps_return:
  "a_type a \<noteq> Some ''callMethod'' \<Longrightarrow> apply_action E cid n st a = Inr st'
     \<Longrightarrow> st_return_data st' = st_return_data st"
  by (auto simp: apply_action_def dest: sync_input_keeps_return db_input_keeps_return split: if_splits)

lemma run_other_actions_keeps_return:
  "\<forall>a \<in> set acts. a_type a \<noteq> Some ''callMethod'' \<Longrightarrow> run_actions E cid n st acts = Inr st'
     \<Longrightarrow> st_return_data st' = st_return_data st"
proof (induction acts arbitrary: st)
  case Nil
  then show ?case by simp
next
  case (Cons a acts)
  then show ?case
    by (auto split: sum.splits dest!: other_action_keeps_return)
qed

lemma call_method_overwrites:
  "apply_call_method E cid n (st\<lparr>st_return_data := x\<rparr>) p = apply_call_method E cid n st p"
  by (simp add: apply_call_method_def Let_def split: sum.splits prod.splits)

lemma dispatch_keeps_Some:
  "dispatch_method E cid n st m ps = Inr st' \<Longrightarrow> st_return_data st = Some rd
     \<Longrightarrow> \<exists>rd'. st_return_data st' = Some rd'"
  by (auto simp: dispatch_method_def split: if_splits sum.splits)

lemma call_method_sets_return:
  "apply_call_method E cid n st p = Inr st' \<Longrightarrow> \<exists>rd. st_return_data st' = Some rd"
  by (auto simp: apply_call_method_def Let_def split: if_splits sum.splits list.splits prod.splits
        dest!: dispatch_keeps_Some)

lemma add_optional_other:
  "add_optional E rd key res = Inr res' \<Longrightarrow> k \<noteq> key \<Longrightarrow> map_of res' k = map_of res k"
  by (auto simp: add_optional_def update_conv' split: option.splits if_splits)

lemma add_return_return:
  "add_return E rdo res = Inr res' \<Longrightarrow> map_of res ''return'' = None
     \<Longrightarrow> map_of res' ''return'' = map_option (Return_get_data E) rdo"
  by (auto simp: add_return_def update_conv' split: option.splits sum.splits
        dest!: add_optional_other [where k = "''return''"])

lemma add_parent_other:
  "add_parent E c res = Inr res' \<Longrightarrow> k \<noteq> ''parent'' \<Longrightarrow> map_of res' k = map_of res k"
  by (auto simp: add_parent_def update_conv' split: option.splits if_splits sum.splits)

lemma finish_request_return:
  "finish_request E cid od st = Inr (res, w') \<Longrightarrow>
     map_of res ''return'' = map_option (Return_get_data E) (st_return_data st)"
  by (auto simp: finish_request_def split: sum.splits option.splits
        dest!: add_parent_other [where k = "''return''"] add_return_return)


lemma process_splits:
  "process_component_request E w n r = Inr (res, w') \<Longrightarrow>
     \<exists>od st0 st. start_request E w n r = Inr (od, st0)
       \<and> run_actions E (cr_id r) n st0 (cr_action_queue r) = Inr st
       \<and> finish_request E (cr_id r) od st = Inr (res, w')"
  by (auto simp: process_component_request_def split: sum.splits)

lemma start_request_return:
  "start_request E w n r = Inr (od, st0) \<Longrightarrow> st_return_data st0 = None \<and> \<not> st_is_reset_called st0"
  by (auto simp: start_request_def split: sum.splits pyval.splits)

text \<open>
  C10. The \<open>return\<close> key of the result comes from the last \<open>callMethod\<close> action of
  the queue alone: that action yields the same state whatever return value was pending
  before it, the actions after it leave the value alone, and the result carries
  \<open>get_data()\<close> of it. A queue without a \<open>callMethod\<close> action gives a result without
  the key.
\<close>

theorem return_reflects_last_call_method:
  assumes "process_component_request E w n r = Inr (res, w')"
  shows "((\<forall>a \<in> set (cr_action_queue r). a_type a \<noteq> Some ''callMethod'') \<longrightarrow> map_of res ''return'' = None)
       \<and> (\<forall>pre a post. cr_action_queue r = pre @ a # post \<and> a_type a = Some ''callMethod''
              \<and> (\<forall>b \<in> set post. a_type b \<noteq> Some ''callMethod'') \<longrightarrow>
            (\<exists>od st0 st1 st2 rd.
               start_request E w n r = Inr (od, st0)
               \<and> run_actions E (cr_id r) n st0 pre = Inr st1
               \<and> (\<forall>x. apply_action E (cr_id r) n (st1\<lparr>st_return_data := x\<rparr>) a = Inr st2)
               \<and> st_return_data st2 = Some rd
               \<and> map_of res ''return'' = Some (Return_get_data E rd)))"
proof -
  from process_splits [OF assms] obtain od st0 st where
    s: "start_request E w n r = Inr (od, st0)"
    and run: "run_actions E (cr_id r) n st0 (cr_action_queue r) = Inr st"
    and fin: "finish_request E (cr_id r) od st = Inr (res, w')"
    by blast
  have ret: "map_of res ''return'' = map_option (Return_get_data E) (st_return_data st)"
    using fin by (rule finish_request_return)
  have none: "map_of res ''return'' = None"
    if "\<forall>a \<in> set (cr_action_queue r). a_type a \<noteq> Some ''callMethod''"
    using run_other_actions_keeps_return [OF that run] start_request_return [OF s] ret by simp
  have last: "\<exists>od st0 st1 st2 rd.
               start_request E w n r = Inr (od, st0)
               \<and> run_actions E (cr_id r) n st0 pre = Inr st1
               \<and> (\<forall>x. apply_action E (cr_id r) n (st1\<lparr>st_return_data := x\<rparr>) a = Inr st2)
               \<and> st_return_data st2 = Some rd
               \<and> map_of res ''return'' = Some (Return_get_data E rd)"
    if q: "cr_action_queue r = pre @ a # post" and c: "a_type a = Some ''callMethod''"
      and p: "\<forall>b \<in> set post. a_type b \<noteq> Some ''callMethod''" for pre a post
  proof -
    from run q obtain st1 st2 where
      r1: "run_actions E (cr_id r) n st0 pre = Inr st1"
      and r2: "apply_action E (cr_id r) n st1 a = Inr st2"
      and r3: "run_actions E (cr_id r) n st2 post = Inr st"
      by (auto simp: run_actions_append split: sum.splits)
    from r2 c have cm: "apply_call_method E (cr_id r) n st1 (a_payload a) = Inr st2"
      by (simp add: apply_action_def)
    then obtain rd where rd: "st_return_data st2 = Some rd"
      using call_method_sets_return by blast
    have any: "apply_action E (cr_id r) n (st1\<lparr>st_return_data := x\<rparr>) a = Inr st2" for x
      using cm c by (simp add: apply_action_def call_method_overwrites)
    have "st_return_data st = Some rd"
      using run_other_actions_keeps_return [OF p r3] rd by simp
    with ret have "map_of res ''return'' = Some (Return_get_data E rd)" by simp
    with s r1 any rd show ?thesis by blast
  qed
  from none last show ?thesis by blast
qed

theorem return_reflects_last_call_method_witness:
  "\<exists>rd. Return_get_data hello_collab rd
           = PDict [(''method'', PStr ''second''), (''params'', PList []), (''value'', PStr ''second'')]
        \<and> result_field ''return'' (process_component_request hello_collab hello_world ''hello'' three_request)
           = Some (Return_get_data hello_collab rd)"
proof -
  have "case process_component_request hello_collab hello_world ''hello'' three_request of
          Inl e \<Rightarrow> False | Inr x \<Rightarrow> True"
    by code_simp
  then obtain res w' where
    p: "process_component_request hello_collab hello_world ''hello'' three_request = Inr (res, w')"
    by (cases "process_component_request hello_collab hello_world ''hello'' three_request") auto
  have q: "cr_action_queue three_request
             = [\<lparr>a_type = Some ''callMethod'', a_payload = [(''name'', PStr ''first'')]\<rparr>]
               @ \<lparr>a_type = Some ''callMethod'', a_payload = [(''name'', PStr ''second'')]\<rparr>
               # [\<lparr>a_type = Some ''syncInput'', a_payload = [(''name'', PStr ''name''), (''value'', PStr ''Jo'')]\<rparr>]"
    by (simp add: three_request_def)
  have c: "a_type \<lparr>a_type = Some ''callMethod'', a_payload = [(''name'', PStr ''second'')]\<rparr> = Some ''callMethod''"
    by simp
  have o: "\<forall>b \<in> set [\<lparr>a_type = Some ''syncInput'', a_payload = [(''name'', PStr ''name''), (''value'', PStr ''Jo'')]\<rparr>].
             a_type b \<noteq> Some ''callMethod''"
    by simp
  from return_reflects_last_call_method [OF p, THEN conjunct2, rule_format, OF conjI [OF q conjI [OF c o]]]
  obtain rd where "map_of res ''return'' = Some (Return_get_data hello_collab rd)"
    by blast
  moreover have "result_field ''return'' (process_component_request hello_collab hello_world ''hello'' three_request)
      = Some (PDict [(''method'', PStr ''second''), (''params'', PList []), (''value'', PStr ''second'')])"
    by code_simp
  ultimately show ?thesis using p by (auto simp: result_field_def)
qed

section \<open>The special method \<open>$reset\<close>\<close>

lemma dispatch_keeps_reset:
  "dispatch_method E cid n st m ps = Inr st' \<Longrightarrow> st_is_reset_called st \<Longrightarrow> st_is_reset_called st'"
  by (auto simp: dispatch_method_def split: if_splits sum.splits)

lemma call_method_keeps_reset:
  "apply_call_method E cid n st p = Inr st' \<Longrightarrow> st_is_reset_called st \<Longrightarrow> st_is_reset_called st'"
  by (auto simp: apply_call_method_def Let_def split: if_splits sum.splits list.splits prod.splits
        dest!: dispatch_keeps_reset)

lemma action_keeps_reset:
  "apply_action E cid n st a = Inr st' \<Longrightarrow> st_is_reset_called st \<Longrightarrow> st_is_reset_called st'"
  by (auto simp: apply_action_def split: if_splits
        dest: sync_input_keeps_return db_input_keeps_return call_method_keeps_reset)

lemma run_actions_keeps_reset:
  "run_actions E cid n st acts = Inr st' \<Longrightarrow> st_is_reset_called st \<Longrightarrow> st_is_reset_called st'"
proof (induction acts arbitrary: st)
  case Nil
  then show ?case by simp
next
  case (Cons a acts)
  then show ?case by (auto split: sum.splits dest: action_keeps_reset)
qed

lemma reset_call_sets_flag:
  "is_reset_call E a \<Longrightarrow> apply_action E cid n st a = Inr st'
     \<Longrightarrow> st_is_reset_called st' \<and> py_getattr E (st_component st') ''errors'' = Some (PDict [])"
  by (auto simp: is_reset_call_def apply_action_def apply_call_method_def Let_def dispatch_method_def
        py_setattr_def py_getattr_def update_conv'
        split: option.splits sum.splits prod.splits pyval.splits)

lemma validate_step_reset:
  "st_is_reset_called st \<Longrightarrow> validate_step E od nd st c = Inr c"
  by (simp add: validate_step_def)

lemma add_return_other:
  "add_return E rdo res = Inr res' \<Longrightarrow> k \<noteq> ''return'' \<Longrightarrow> k \<noteq> ''redirect'' \<Longrightarrow> k \<noteq> ''poll''
     \<Longrightarrow> map_of res' k = map_of res k"
  by (auto simp: add_return_def update_conv' split: option.splits sum.splits
        dest!: add_optional_other [where k = k])

lemma finish_request_errors:
  assumes "finish_request E cid od st = Inr (res, w')" and "st_is_reset_called st"
    and "inert_observers E"
  shows "map_of res ''errors'' = py_getattr E (st_component st) ''errors''"
proof -
  from assms(3) obtain x y where
    f: "invoke E (st_component st) ''get_frontend_context_variables'' [] = Inr (st_component st, x)"
    and r: "invoke E (st_component st) ''render'' [] = Inr (st_component st, y)"
    unfolding inert_observers_def by blast
  show ?thesis
    using assms(1)
    by (auto simp: finish_request_def call_method_def f r validate_step_reset [OF assms(2)]
          split: sum.splits option.splits if_splits
          dest!: add_parent_other [where k = "''errors''"] add_return_other [where k = "''errors''"])
qed


lemma hello_inert_observers: "inert_observers hello_collab"
  by (simp add: inert_observers_def hello_collab_def hello_invoke_def)

text \<open>
  C3, as the code has it. The errors are cleared when the \<open>$reset\<close> action is processed,
  and the actions after it work on the component as usual: a \<open>syncInput\<close> of the path
  \<open>errors.name\<close> that follows \<open>$reset\<close> writes into the cleared dictionary, and the
  result carries that entry. So the errors of the result are not empty regardless of the
  other actions of the queue.
\<close>

theorem reset_then_sync_populates_errors:
  "result_field ''errors''
     (process_component_request hello_collab hello_world ''hello''
        (reset_request [\<lparr>a_type = Some ''syncInput'',
                         a_payload = [(''name'', PStr ''errors.name''), (''value'', PList [PStr ''bad''])]\<rparr>]))
   = Some (PDict [(''name'', PList [PStr ''bad''])])"
  by code_simp

text \<open>
  C3, amended. For a request whose queue contains a \<open>$reset\<close> call, the result is
  finished from a state with the reset flag set, in which the validation step does nothing
  whatever the data are; and when the \<open>$reset\<close> call is the last action, the component
  has the empty errors dictionary after the loop, which is what the result carries
  provided serialising and rendering leave the component alone.
\<close>

theorem reset_skips_validation:
  assumes "process_component_request E w n r = Inr (res, w')"
    and "cr_action_queue r = pre @ a # post"
    and "is_reset_call E a"
  shows "\<exists>od st0 st.
           start_request E w n r = Inr (od, st0)
           \<and> run_actions E (cr_id r) n st0 (cr_action_queue r) = Inr st
           \<and> finish_request E (cr_id r) od st = Inr (res, w')
           \<and> st_is_reset_called st
           \<and> (\<forall>od' nd c. validate_step E od' nd st c = Inr c)
           \<and> (post = [] \<longrightarrow>
                 py_getattr E (st_component st) ''errors'' = Some (PDict [])
                 \<and> (inert_observers E \<longrightarrow> map_of res ''errors'' = Some (PDict [])))"
proof -
  from process_splits [OF assms(1)] obtain od st0 st where
    s: "start_request E w n r = Inr (od, st0)"
    and run: "run_actions E (cr_id r) n st0 (cr_action_queue r) = Inr st"
    and fin: "finish_request E (cr_id r) od st = Inr (res, w')"
    by blast
  from run assms(2) obtain st1 st2 where
    r1: "run_actions E (cr_id r) n st0 pre = Inr st1"
    and r2: "apply_action E (cr_id r) n st1 a = Inr st2"
    and r3: "run_actions E (cr_id r) n st2 post = Inr st"
    by (auto simp: run_actions_append split: sum.splits)
  from reset_call_sets_flag [OF assms(3) r2] have
    f2: "st_is_reset_called st2" and e2: "py_getattr E (st_component st2) ''errors'' = Some (PDict [])"
    by simp_all
  from run_actions_keeps_reset [OF r3 f2] have f: "st_is_reset_called st" .
  have v: "\<forall>od' nd c. validate_step E od' nd st c = Inr c"
    using f by (simp add: validate_step_reset)
  have l: "py_getattr E (st_component st) ''errors'' = Some (PDict [])
           \<and> (inert_observers E \<longrightarrow> map_of res ''errors'' = Some (PDict []))" if "post = []"
  proof -
    from that r3 have "st = st2" by simp
    with e2 finish_request_errors [OF fin f] show ?thesis by simp
  qed
  from s run fin f v l show ?thesis by blast
qed

theorem reset_skips_validation_witness:
  "result_field ''errors'' (process_component_request hello_collab hello_world ''hello'' (reset_request []))
     = Some (PDict [])"
proof -
  have "case process_component_request hello_collab hello_world ''hello'' (reset_request []) of
          Inl e \<Rightarrow> False | Inr x \<Rightarrow> True"
    by code_simp
  then obtain res w' where
    p: "process_component_request hello_collab hello_world ''hello'' (reset_request []) = Inr (res, w')"
    by (cases "process_component_request hello_collab hello_world ''hello'' (reset_request [])") auto
  have q: "cr_action_queue (reset_request [])
             = [\<lparr>a_type = Some ''syncInput'', a_payload = [(''name'', PStr ''name''), (''value'', PStr ''Jo'')]\<rparr>]
               @ \<lparr>a_type = Some ''callMethod'', a_payload = [(''name'', PStr ''$reset'')]\<rparr> # []"
    by (simp add: reset_request_def)
  have c: "is_reset_call hello_collab \<lparr>a_type = Some ''callMethod'', a_payload = [(''name'', PStr ''$reset'')]\<rparr>"
    by code_simp
  from reset_skips_validation [OF p q c] hello_inert_observers
  have "map_of res ''errors'' = Some (PDict [])" by blast
  with p show ?thesis by (simp add: result_field_def)
qed

section \<open>Writing through a path with a missing segment\<close>

lemma set_loop_descend:
  "rest \<noteq> [] \<Longrightarrow>
   set_loop E pn v component data cur path r (pre @ rest) =
     (case set_descend E data cur path r pre of
        Inl e \<Rightarrow> Inl e
      | Inr (cur', path', r') \<Rightarrow> set_loop E pn v component data cur' path' r' rest)"
proof (induction pre arbitrary: cur path r)
  case Nil
  then show ?case by simp
next
  case (Cons p pre)
  then show ?case
    by (cases cur) (simp_all split: option.splits sum.splits)
qed

lemma set_loop_nothing_resolves:
  "\<not> is_dict cur \<Longrightarrow> \<forall>s \<in> set rest. py_getattr E cur s = None \<Longrightarrow>
   set_loop E pn v component data cur path r rest = Inr (component, data)"
  by (induction rest) (cases cur; simp)+

text \<open>
  C4, as the code has it. The component has no attribute \<open>missing\<close> and is no
  dictionary, so the first segment of \<open>missing.name\<close> is passed over; the loop goes on
  at the same node with \<open>name\<close>, the last segment, which the component has: the
  property \<open>name\<close> is written and mirrored into the data. The set is not a no-op.
\<close>

theorem set_skips_missing_segment:
  "set_property_value hello_collab hello_component (PStr ''missing.name'') (PStr ''Jo'') (PDict [])
     = Inr (put_attr ''name'' (PStr ''Jo'') hello_component, PDict [(''name'', PStr ''Jo'')])"
  by code_simp

text \<open>
  C4, amended. For a value other than \<open>None\<close> (which the assertion refuses): when
  the loop stands at a node that is no dictionary and neither the missing segment nor any
  segment after it names an attribute of that node, the set raises nothing and returns
  the component and the data unchanged (the generic hooks \<open>updating\<close> and
  \<open>updated\<close> are called all the same, and are taken to leave the component alone).
\<close>

theorem set_noop_when_nothing_resolves:
  assumes "v \<noteq> PNone"
    and "call_method E c ''updating'' [PStr p, v] = Inr (c, x)"
    and "call_method E c ''updated'' [PStr p, v] = Inr (c, y)"
    and "split_dot p = pre @ s # rest"
    and "set_descend E d c [] (Within []) pre = Inr (cur, path, r)"
    and "\<not> is_dict cur"
    and "\<forall>t \<in> set (s # rest). py_getattr E cur t = None"
  shows "set_property_value E c (PStr p) v d = Inr (c, d)"
proof -
  have "set_loop E p v c d c [] (Within []) (split_dot p) = Inr (c, d)"
    using assms(4-7) set_loop_descend [of "s # rest" E p v c d c "[]" "Within []" pre]
      set_loop_nothing_resolves [of cur "s # rest" E p v c d path r]
    by simp
  then show ?thesis
    using assms(1-3) by (simp add: set_property_value_def)
qed

theorem set_noop_when_nothing_resolves_witness:
  "set_property_value hello_collab hello_component (PStr ''author.title.text'') (PStr ''Jo'')
      (PDict [(''name'', PStr ''World'')])
     = Inr (hello_component, PDict [(''name'', PStr ''World'')])"
proof -
  have h2: "call_method hello_collab hello_component ''updating'' [PStr ''author.title.text'', PStr ''Jo'']
              = Inr (hello_component, PNone)" by code_simp
  have h3: "call_method hello_collab hello_component ''updated'' [PStr ''author.title.text'', PStr ''Jo'']
              = Inr (hello_component, PNone)" by code_simp
  have h4: "split_dot ''author.title.text'' = [''author''] @ ''title'' # [''text'']" by code_simp
  have h5: "set_descend hello_collab (PDict [(''name'', PStr ''World'')]) hello_component [] (Within [])
              [''author''] = Inr (PObj UnicornFieldK [(''name'', PStr ''Neil'')], [Attr ''author''], Fresh)"
    by code_simp
  have h6: "\<not> is_dict (PObj UnicornFieldK [(''name'', PStr ''Neil'')])" by simp
  have h7: "\<forall>t \<in> set (''title'' # [''text'']).
              py_getattr hello_collab (PObj UnicornFieldK [(''name'', PStr ''Neil'')]) t = None"
    by (simp add: py_getattr_def)
  from set_noop_when_nothing_resolves [OF _ h2 h3 h4 h5 h6 h7] show ?thesis by simp
qed

section \<open>Writing a property and reading it back\<close>























end
